theory Spec2Isabelle
  imports Complex_Main
begin

section \<open>Python values\<close>

text \<open>
  A Python float is either a number or NaN. Finite floats are read as reals: rounding and
  the infinities are outside the model. Every ordering comparison with NaN is false, and
  arithmetic with NaN gives NaN, as in Python and pandas.
\<close>

datatype pyfloat = Num real | NaN

fun fcmp :: "(real \<Rightarrow> real \<Rightarrow> bool) \<Rightarrow> pyfloat \<Rightarrow> pyfloat \<Rightarrow> bool" where
  "fcmp rel (Num a) (Num b) = rel a b"
| "fcmp rel _ _ = False"

fun fmul :: "pyfloat \<Rightarrow> pyfloat \<Rightarrow> pyfloat" where
  "fmul (Num a) (Num b) = Num (a * b)"
| "fmul _ _ = NaN"

datatype error = AttributeError | SendError | DataError | MessageError

section \<open>config.py\<close>

record indicators_config =
  rsi_period :: int
  overbought :: real
  oversold :: real

definition INDICATORS_CONFIG :: indicators_config where
  "INDICATORS_CONFIG = \<lparr>rsi_period = 14, overbought = 70, oversold = 30\<rparr>"

record websocket_config =
  ping_interval :: int
  ping_timeout :: int
  reconnect_delay :: int
  max_reconnect_attempts :: int

definition WEBSOCKET_CONFIG :: websocket_config where
  "WEBSOCKET_CONFIG =
     \<lparr>ping_interval = 20, ping_timeout = 10, reconnect_delay = 5, max_reconnect_attempts = 5\<rparr>"

record risk_config =
  max_open_positions :: int
  max_daily_trades :: int
  max_daily_loss :: real
  position_size_percentage :: real

definition RISK_CONFIG :: risk_config where
  "RISK_CONFIG =
     \<lparr>max_open_positions = 1, max_daily_trades = 10, max_daily_loss = 5,
      position_size_percentage = 1\<rparr>"

section \<open>trading_signals.py: TradingSignalGenerator\<close>

text \<open>
  The attributes that \<open>TradingSignalGenerator.__init__\<close> adds to the client. The order
  placeholders only log; the model records which of them ran, in order.
\<close>

datatype order = PlaceLong | CloseLong | PlaceShort | CloseShort

record trader =
  in_long_position :: bool
  in_short_position :: bool
  last_rsi :: "pyfloat option"
  last_macd :: "pyfloat option"
  last_macd_signal :: "pyfloat option"
  daily_trades :: int
  daily_loss :: real
  rsi_overbought :: real
  rsi_oversold :: real
  orders :: "order list"

definition trader_init :: trader where
  "trader_init =
     \<lparr>in_long_position = False, in_short_position = False, last_rsi = None,
      last_macd = None, last_macd_signal = None, daily_trades = 0, daily_loss = 0,
      rsi_overbought = overbought INDICATORS_CONFIG, rsi_oversold = oversold INDICATORS_CONFIG,
      orders = []\<rparr>"

text \<open>\<open>check_risk_limits\<close>: the three checks in the order of the source; the limits are
  read from the module-level \<open>RISK_CONFIG\<close>, passed here as \<open>cfg\<close>.\<close>

definition check_risk_limits :: "risk_config \<Rightarrow> trader \<Rightarrow> bool" where
  "check_risk_limits cfg s =
     (if daily_trades s \<ge> max_daily_trades cfg then False
      else if daily_loss s \<ge> max_daily_loss cfg then False
      else if (in_long_position s \<or> in_short_position s) \<and> max_open_positions cfg \<le> 1
        then False
      else True)"

definition rsi_crossed_below_oversold :: "trader \<Rightarrow> pyfloat \<Rightarrow> pyfloat \<Rightarrow> bool" where
  "rsi_crossed_below_oversold s lr current_rsi =
     (fcmp (>) lr (Num (rsi_oversold s)) \<and> fcmp (\<le>) current_rsi (Num (rsi_oversold s)))"

definition rsi_crossed_above_overbought :: "trader \<Rightarrow> pyfloat \<Rightarrow> pyfloat \<Rightarrow> bool" where
  "rsi_crossed_above_overbought s lr current_rsi =
     (fcmp (<) lr (Num (rsi_overbought s)) \<and> fcmp (\<ge>) current_rsi (Num (rsi_overbought s)))"

definition macd_crossed_above_signal ::
  "pyfloat \<Rightarrow> pyfloat \<Rightarrow> pyfloat \<Rightarrow> pyfloat \<Rightarrow> bool" where
  "macd_crossed_above_signal lm ls current_macd current_macd_signal =
     (fcmp (\<le>) lm ls \<and> fcmp (>) current_macd current_macd_signal)"

definition macd_crossed_below_signal ::
  "pyfloat \<Rightarrow> pyfloat \<Rightarrow> pyfloat \<Rightarrow> pyfloat \<Rightarrow> bool" where
  "macd_crossed_below_signal lm ls current_macd current_macd_signal =
     (fcmp (\<ge>) lm ls \<and> fcmp (<) current_macd current_macd_signal)"

text \<open>\<open>generate_signals\<close>, branch for branch: the early return while a last value is
  \<open>None\<close>, the four crossover flags, the risk check, then the \<open>if\<close>/\<open>elif\<close> chain with
  its four conditions as the source writes them (the third repeats the first).\<close>

definition generate_signals ::
  "risk_config \<Rightarrow> trader \<Rightarrow> pyfloat \<Rightarrow> pyfloat \<Rightarrow> pyfloat \<Rightarrow> trader" where
  "generate_signals cfg s current_rsi current_macd current_macd_signal =
     (case (last_rsi s, last_macd s, last_macd_signal s) of
        (Some lr, Some lm, Some ls) \<Rightarrow>
          (let below = rsi_crossed_below_oversold s lr current_rsi;
               above = rsi_crossed_above_overbought s lr current_rsi;
               up = macd_crossed_above_signal lm ls current_macd current_macd_signal;
               down = macd_crossed_below_signal lm ls current_macd current_macd_signal
           in if \<not> check_risk_limits cfg s then s
              else if \<not> in_long_position s \<and> \<not> in_short_position s then
                (if below \<and> up
                 then s\<lparr>in_long_position := True, daily_trades := daily_trades s + 1,
                        orders := orders s @ [PlaceLong]\<rparr>
                 else s)
              else if in_long_position s then
                (if above \<or> down
                 then s\<lparr>in_long_position := False, orders := orders s @ [CloseLong]\<rparr>
                 else s)
              else if \<not> in_long_position s \<and> \<not> in_short_position s then
                (if above \<and> down
                 then s\<lparr>in_short_position := True, daily_trades := daily_trades s + 1,
                        orders := orders s @ [PlaceShort]\<rparr>
                 else s)
              else if in_short_position s then
                (if below \<or> up
                 then s\<lparr>in_short_position := False, orders := orders s @ [CloseShort]\<rparr>
                 else s)
              else s)
      | _ \<Rightarrow> s)"

text \<open>The part of \<open>TradingSignalGenerator.calculate_indicators\<close> that follows the
  library calls: the latest RSI, MACD and signal values go to \<open>generate_signals\<close> and are
  then stored as the last values.\<close>

definition on_indicators ::
  "risk_config \<Rightarrow> trader \<Rightarrow> pyfloat \<times> pyfloat \<times> pyfloat \<Rightarrow> trader" where
  "on_indicators cfg s v =
     (case v of (current_rsi, current_macd, current_macd_signal) \<Rightarrow>
        (generate_signals cfg s current_rsi current_macd current_macd_signal)
          \<lparr>last_rsi := Some current_rsi, last_macd := Some current_macd,
           last_macd_signal := Some current_macd_signal\<rparr>)"

text \<open>A step opens a position when one of the two position flags goes from false to true.\<close>

definition position_opened :: "trader \<Rightarrow> trader \<Rightarrow> bool" where
  "position_opened s s' =
     ((in_long_position s' \<and> \<not> in_long_position s) \<or>
      (in_short_position s' \<and> \<not> in_short_position s))"

text \<open>Three ticks of (RSI, MACD, signal): the first only sets the last values, the second
  is an oversold cross together with a bullish MACD cross, the third an overbought cross
  together with a bearish MACD cross.\<close>

definition qualifying_ticks :: "(pyfloat \<times> pyfloat \<times> pyfloat) list" where
  "qualifying_ticks =
     [(Num 35, Num (-1), Num 0), (Num 30, Num 1, Num 0), (Num 75, Num (-1), Num 0)]"

text \<open>A flat trader that has used its ten daily trades.\<close>

definition trader_at_limit :: trader where
  "trader_at_limit =
     trader_init\<lparr>last_rsi := Some (Num 35), last_macd := Some (Num (-1)),
       last_macd_signal := Some (Num 0), daily_trades := 10\<rparr>"

text \<open>A flat trader whose daily loss has reached the limit, and a trader with an open
  long position.\<close>

definition trader_at_loss_limit :: trader where
  "trader_at_loss_limit = trader_at_limit\<lparr>daily_trades := 0, daily_loss := 5\<rparr>"

definition trader_in_long :: trader where
  "trader_in_long = trader_at_limit\<lparr>daily_trades := 1, in_long_position := True\<rparr>"

section \<open>binance_ws_client.py: BinanceWebSocketClient\<close>

subsection \<open>The DataFrame\<close>

text \<open>
  One row of \<open>self.df\<close>, with the sixteen columns of the constructor. The two time
  columns hold the millisecond values of the wire format (\<open>t\<close> and \<open>T\<close> are integers
  there), \<open>trades\<close> an integer (\<open>open_price\<close> is the column \<open>open\<close>), every other column a float that may be NaN: pandas'
  marker of a missing value.
\<close>

record row =
  timestamp :: int
  open_price :: pyfloat
  high :: pyfloat
  low :: pyfloat
  close :: pyfloat
  volume :: pyfloat
  trades :: int
  quote_volume :: pyfloat
  close_time :: int
  rsi :: pyfloat
  sma_20 :: pyfloat
  sma_50 :: pyfloat
  macd :: pyfloat
  macd_signal :: pyfloat
  macd_diff :: pyfloat
  vwap :: pyfloat

text \<open>\<open>fillna(method='ffill')\<close>: a NaN cell takes the value of the cell above it in
  its column, already filled; a column's leading NaN cells stay.\<close>

definition fill_cell :: "pyfloat \<Rightarrow> pyfloat \<Rightarrow> pyfloat" where
  "fill_cell prev c = (case c of NaN \<Rightarrow> prev | Num x \<Rightarrow> Num x)"

definition ffill_row :: "row \<Rightarrow> row \<Rightarrow> row" where
  "ffill_row p r =
     r\<lparr>open_price := fill_cell (open_price p) (open_price r), high := fill_cell (high p) (high r),
       low := fill_cell (low p) (low r), close := fill_cell (close p) (close r),
       volume := fill_cell (volume p) (volume r),
       quote_volume := fill_cell (quote_volume p) (quote_volume r),
       rsi := fill_cell (rsi p) (rsi r), sma_20 := fill_cell (sma_20 p) (sma_20 r),
       sma_50 := fill_cell (sma_50 p) (sma_50 r), macd := fill_cell (macd p) (macd r),
       macd_signal := fill_cell (macd_signal p) (macd_signal r),
       macd_diff := fill_cell (macd_diff p) (macd_diff r),
       vwap := fill_cell (vwap p) (vwap r)\<rparr>"

fun ffill_from :: "row \<Rightarrow> row list \<Rightarrow> row list" where
  "ffill_from p [] = []"
| "ffill_from p (r # rs) = ffill_row p r # ffill_from (ffill_row p r) rs"

fun ffill :: "row list \<Rightarrow> row list" where
  "ffill [] = []"
| "ffill (r # rs) = r # ffill_from r rs"

text \<open>\<open>fillna(0)\<close>.\<close>

definition zero_cell :: "pyfloat \<Rightarrow> pyfloat" where
  "zero_cell c = (case c of NaN \<Rightarrow> Num 0 | Num x \<Rightarrow> Num x)"

definition fillna0_row :: "row \<Rightarrow> row" where
  "fillna0_row r =
     r\<lparr>open_price := zero_cell (open_price r), high := zero_cell (high r), low := zero_cell (low r),
       close := zero_cell (close r), volume := zero_cell (volume r),
       quote_volume := zero_cell (quote_volume r), rsi := zero_cell (rsi r),
       sma_20 := zero_cell (sma_20 r), sma_50 := zero_cell (sma_50 r),
       macd := zero_cell (macd r), macd_signal := zero_cell (macd_signal r),
       macd_diff := zero_cell (macd_diff r), vwap := zero_cell (vwap r)\<rparr>"

text \<open>\<open>self.df[col] = series\<close>: the assignment aligns on the index, so the frame
  keeps its rows; a row the series has no value for gets NaN.\<close>

definition set_column :: "(pyfloat \<Rightarrow> row \<Rightarrow> row) \<Rightarrow> pyfloat list \<Rightarrow> row list \<Rightarrow> row list" where
  "set_column upd vals rows =
     map (\<lambda>(i, r). upd (if i < length vals then vals ! i else NaN) r) (enumerate 0 rows)"

subsection \<open>Signals and the client's state\<close>

record signal =
  sig_type :: string
  strength :: real
  price :: pyfloat
  stop_loss :: pyfloat
  take_profit :: pyfloat
  reasons :: "string list"

datatype queue_item = DataFrame "row list" | SignalData signal

datatype control = SUBSCRIBE string | UNSUBSCRIBE string

datatype effect = Send control | CloseTransport | Sleep int | RunForever

text \<open>
  The attributes of the client. \<open>ws\<close> tells whether \<open>self.ws\<close> holds a WebSocketApp,
  \<open>data_queue\<close> is \<open>None\<close> until the dashboard sets it and then holds what was put,
  oldest first. \<open>effects\<close> records the calls into the websocket library and to
  \<open>time.sleep\<close>, in order, and \<open>error_log\<close> the exceptions that an \<open>except\<close>
  clause caught and logged. Other logging is left out.
\<close>

record client =
  symbol :: string
  interval :: string
  ws :: bool
  df :: "row list"
  is_connected :: bool
  reconnect_attempts :: int
  data_queue :: "queue_item list option"
  effects :: "effect list"
  error_log :: "error list"

text \<open>\<open>str.lower\<close> on the letters A to Z; a string is a list of bytes here, and the
  other bytes stay as they are.\<close>

definition lower_char :: "char \<Rightarrow> char" where
  "lower_char c =
     (case map_of (zip ''ABCDEFGHIJKLMNOPQRSTUVWXYZ'' ''abcdefghijklmnopqrstuvwxyz'') c of
        Some l \<Rightarrow> l
      | None \<Rightarrow> c)"

definition lower :: "string \<Rightarrow> string" where
  "lower str = map lower_char str"

definition client_init :: "string \<Rightarrow> string \<Rightarrow> client" where
  "client_init sy itv =
     \<lparr>symbol = lower sy, interval = itv, ws = False, df = [], is_connected = False,
      reconnect_attempts = 0, data_queue = None, effects = [], error_log = []\<rparr>"

definition stream_name :: "client \<Rightarrow> string" where
  "stream_name s = symbol s @ ''@kline_'' @ interval s"

subsection \<open>generate_trading_signals\<close>

text \<open>The four local variables that the rules update.\<close>

record rule_vars =
  long_signal :: bool
  short_signal :: bool
  signal_strength :: real
  signal_reasons :: "string list"

definition rule_vars_init :: rule_vars where
  "rule_vars_init =
     \<lparr>long_signal = False, short_signal = False, signal_strength = 0, signal_reasons = []\<rparr>"

definition bullish :: "real \<Rightarrow> string \<Rightarrow> rule_vars \<Rightarrow> rule_vars" where
  "bullish w reason v =
     v\<lparr>long_signal := True, signal_strength := signal_strength v + w,
       signal_reasons := signal_reasons v @ [reason]\<rparr>"

definition bearish :: "real \<Rightarrow> string \<Rightarrow> rule_vars \<Rightarrow> rule_vars" where
  "bearish w reason v =
     v\<lparr>short_signal := True, signal_strength := signal_strength v + w,
       signal_reasons := signal_reasons v @ [reason]\<rparr>"

definition rsi_long :: "row \<Rightarrow> bool" where
  "rsi_long latest = fcmp (<) (rsi latest) (Num 30)"

definition rsi_short :: "row \<Rightarrow> bool" where
  "rsi_short latest = fcmp (>) (rsi latest) (Num 70)"

definition rsi_rule :: "row \<Rightarrow> rule_vars \<Rightarrow> rule_vars" where
  "rsi_rule latest v =
     (if rsi_long latest then bullish 1 ''RSI oversold'' v
      else if rsi_short latest then bearish 1 ''RSI overbought'' v
      else v)"

definition sma_long :: "row \<Rightarrow> row \<Rightarrow> bool" where
  "sma_long latest prev =
     (fcmp (>) (sma_20 latest) (sma_50 latest) \<and> fcmp (\<le>) (sma_20 prev) (sma_50 prev))"

definition sma_short :: "row \<Rightarrow> row \<Rightarrow> bool" where
  "sma_short latest prev =
     (fcmp (<) (sma_20 latest) (sma_50 latest) \<and> fcmp (\<ge>) (sma_20 prev) (sma_50 prev))"

definition sma_rule :: "row \<Rightarrow> row \<Rightarrow> rule_vars \<Rightarrow> rule_vars" where
  "sma_rule latest prev v =
     (if sma_long latest prev then bullish 1 ''Golden cross (SMA20 crossed above SMA50)'' v
      else if sma_short latest prev
        then bearish 1 ''Death cross (SMA20 crossed below SMA50)'' v
      else v)"

definition macd_long :: "row \<Rightarrow> row \<Rightarrow> bool" where
  "macd_long latest prev =
     (fcmp (>) (macd latest) (macd_signal latest) \<and> fcmp (\<le>) (macd prev) (macd_signal prev))"

definition macd_short :: "row \<Rightarrow> row \<Rightarrow> bool" where
  "macd_short latest prev =
     (fcmp (<) (macd latest) (macd_signal latest) \<and> fcmp (\<ge>) (macd prev) (macd_signal prev))"

definition macd_rule :: "row \<Rightarrow> row \<Rightarrow> rule_vars \<Rightarrow> rule_vars" where
  "macd_rule latest prev v =
     (if macd_long latest prev then bullish 1 ''MACD bullish crossover'' v
      else if macd_short latest prev then bearish 1 ''MACD bearish crossover'' v
      else v)"

text \<open>\<open>rolling(window=20).mean().iloc[-1]\<close>: the mean of the last \<open>w\<close> values, NaN
  when there are fewer than \<open>w\<close> values or one of them is NaN.\<close>

fun fadd :: "pyfloat \<Rightarrow> pyfloat \<Rightarrow> pyfloat" where
  "fadd (Num a) (Num b) = Num (a + b)"
| "fadd _ _ = NaN"

fun fdiv_nat :: "pyfloat \<Rightarrow> nat \<Rightarrow> pyfloat" where
  "fdiv_nat (Num a) n = Num (a / real n)"
| "fdiv_nat NaN n = NaN"

definition rolling_mean_last :: "nat \<Rightarrow> pyfloat list \<Rightarrow> pyfloat" where
  "rolling_mean_last w xs =
     (if length xs < w then NaN
      else fdiv_nat (foldl fadd (Num 0) (drop (length xs - w) xs)) w)"

definition high_volume :: "row list \<Rightarrow> bool" where
  "high_volume rows = fcmp (>) (volume (last rows)) (rolling_mean_last 20 (map volume rows))"

definition volume_rule :: "row list \<Rightarrow> rule_vars \<Rightarrow> rule_vars" where
  "volume_rule rows v =
     (if high_volume rows then
        (if long_signal v
         then v\<lparr>signal_strength := signal_strength v + 1 / 2,
                signal_reasons := signal_reasons v @ [''High volume confirmation'']\<rparr>
         else if short_signal v
         then v\<lparr>signal_strength := signal_strength v + 1 / 2,
                signal_reasons := signal_reasons v @ [''High volume confirmation'']\<rparr>
         else v)
      else v)"

definition vwap_long :: "row \<Rightarrow> row \<Rightarrow> bool" where
  "vwap_long latest prev =
     (fcmp (>) (close latest) (vwap latest) \<and> fcmp (\<le>) (close prev) (vwap prev))"

definition vwap_short :: "row \<Rightarrow> row \<Rightarrow> bool" where
  "vwap_short latest prev =
     (fcmp (<) (close latest) (vwap latest) \<and> fcmp (\<ge>) (close prev) (vwap prev))"

definition vwap_rule :: "row \<Rightarrow> row \<Rightarrow> rule_vars \<Rightarrow> rule_vars" where
  "vwap_rule latest prev v =
     (if vwap_long latest prev then bullish (1 / 2) ''Price crossed above VWAP'' v
      else if vwap_short latest prev then bearish (1 / 2) ''Price crossed below VWAP'' v
      else v)"

text \<open>The rules in the order of the source, on a frame of at least two rows:
  \<open>latest = df.iloc[-1]\<close>, \<open>prev = df.iloc[-2]\<close>.\<close>

definition evaluate_rules :: "row list \<Rightarrow> rule_vars" where
  "evaluate_rules rows =
     (let latest = last rows; prev = rows ! (length rows - 2)
      in vwap_rule latest prev
           (volume_rule rows
              (macd_rule latest prev (sma_rule latest prev (rsi_rule latest rule_vars_init)))))"

definition signal_data :: "row \<Rightarrow> rule_vars \<Rightarrow> signal" where
  "signal_data latest v =
     \<lparr>sig_type = (if long_signal v then ''long'' else ''short''),
      strength = signal_strength v,
      price = close latest,
      stop_loss = (if long_signal v then fmul (close latest) (Num (98 / 100))
                   else fmul (close latest) (Num (102 / 100))),
      take_profit = (if long_signal v then fmul (close latest) (Num (103 / 100))
                     else fmul (close latest) (Num (97 / 100))),
      reasons = signal_reasons v\<rparr>"

text \<open>
  \<open>generate_trading_signals\<close>. \<open>hasattr(self, 'data_queue')\<close> is true of every client,
  since the constructor sets the attribute (to \<open>None\<close>); so the signal is always put, and
  \<open>put\<close> on \<open>None\<close> raises AttributeError before anything is logged.
\<close>

definition generate_trading_signals :: "client \<Rightarrow> error + client" where
  "generate_trading_signals s =
     (if length (df s) < 50 then Inr s
      else
        (let latest = last (df s); v = evaluate_rules (df s)
         in if long_signal v \<or> short_signal v then
              (case data_queue s of
                 None \<Rightarrow> Inl AttributeError
               | Some q \<Rightarrow> Inr (s\<lparr>data_queue := Some (q @ [SignalData (signal_data latest v)])\<rparr>))
            else Inr s))"

subsection \<open>calculate_indicators\<close>

text \<open>
  The \<open>ta\<close> library is not part of the repository. What \<open>calculate_indicators\<close> uses
  of it is a parameter: each indicator's constructor and each accessor method, every
  one of which returns a value or raises. \<open>'r\<close>, \<open>'a\<close>, \<open>'m\<close> and \<open>'v\<close> are the
  types of the four indicator objects.
\<close>

record ('r, 'a, 'm, 'v) ta_lib =
  RSIIndicator :: "pyfloat list \<Rightarrow> error + 'r"
  rsi_method :: "'r \<Rightarrow> error + pyfloat list"
  SMAIndicator :: "pyfloat list \<Rightarrow> nat \<Rightarrow> error + 'a"
  sma_indicator :: "'a \<Rightarrow> error + pyfloat list"
  MACD :: "pyfloat list \<Rightarrow> error + 'm"
  macd_method :: "'m \<Rightarrow> error + pyfloat list"
  macd_signal_method :: "'m \<Rightarrow> error + pyfloat list"
  macd_diff_method :: "'m \<Rightarrow> error + pyfloat list"
  VolumeWeightedAveragePrice ::
    "pyfloat list \<Rightarrow> pyfloat list \<Rightarrow> pyfloat list \<Rightarrow> pyfloat list \<Rightarrow> error + 'v"
  volume_weighted_average_price :: "'v \<Rightarrow> error + pyfloat list"

text \<open>A statement of the \<open>try\<close> block that calls the library: when the call raises, the
  block ends with that exception and the state reached so far.\<close>

definition try_call ::
  "error + 'x \<Rightarrow> client \<Rightarrow> ('x \<Rightarrow> error option \<times> client) \<Rightarrow> error option \<times> client" where
  "try_call r s k = (case r of Inl e \<Rightarrow> (Some e, s) | Inr x \<Rightarrow> k x)"

definition assign :: "(pyfloat \<Rightarrow> row \<Rightarrow> row) \<Rightarrow> pyfloat list \<Rightarrow> client \<Rightarrow> client" where
  "assign upd vals s = s\<lparr>df := set_column upd vals (df s)\<rparr>"

text \<open>The end of the \<open>try\<close> block: the frame is put on the queue when there is one
  (the \<open>astype(float)\<close> loop before it changes no cell of this model, whose cells are
  floats already), then the signals are generated.\<close>

definition publish :: "client \<Rightarrow> error option \<times> client" where
  "publish s =
     (let s' = (case data_queue s of
                  None \<Rightarrow> s
                | Some q \<Rightarrow> s\<lparr>data_queue := Some (q @ [DataFrame (df s)])\<rparr>)
      in case generate_trading_signals s' of
           Inl e \<Rightarrow> (Some e, s')
         | Inr s'' \<Rightarrow> (None, s''))"

text \<open>The \<open>try\<close> block, statement by statement: the exception that ends it, if any, and
  the state it leaves.\<close>

definition calculate_indicators_try ::
  "('r, 'a, 'm, 'v) ta_lib \<Rightarrow> client \<Rightarrow> error option \<times> client" where
  "calculate_indicators_try lib s0 =
     (let s1 = s0\<lparr>df := ffill (df s0)\<rparr> in
      try_call (RSIIndicator lib (map close (df s1))) s1 (\<lambda>rsi_indicator.
      try_call (rsi_method lib rsi_indicator) s1 (\<lambda>c.
      let s2 = assign (\<lambda>x r. r\<lparr>rsi := x\<rparr>) c s1 in
      try_call (SMAIndicator lib (map close (df s2)) 20) s2 (\<lambda>sma20.
      try_call (SMAIndicator lib (map close (df s2)) 50) s2 (\<lambda>sma50.
      try_call (sma_indicator lib sma20) s2 (\<lambda>c.
      let s3 = assign (\<lambda>x r. r\<lparr>sma_20 := x\<rparr>) c s2 in
      try_call (sma_indicator lib sma50) s3 (\<lambda>c.
      let s4 = assign (\<lambda>x r. r\<lparr>sma_50 := x\<rparr>) c s3 in
      try_call (MACD lib (map close (df s4))) s4 (\<lambda>m.
      try_call (macd_method lib m) s4 (\<lambda>c.
      let s5 = assign (\<lambda>x r. r\<lparr>macd := x\<rparr>) c s4 in
      try_call (macd_signal_method lib m) s5 (\<lambda>c.
      let s6 = assign (\<lambda>x r. r\<lparr>macd_signal := x\<rparr>) c s5 in
      try_call (macd_diff_method lib m) s6 (\<lambda>c.
      let s7 = assign (\<lambda>x r. r\<lparr>macd_diff := x\<rparr>) c s6 in
      try_call (VolumeWeightedAveragePrice lib (map high (df s7)) (map low (df s7))
                  (map close (df s7)) (map volume (df s7))) s7 (\<lambda>vw.
      try_call (volume_weighted_average_price lib vw) s7 (\<lambda>c.
      let s8 = assign (\<lambda>x r. r\<lparr>vwap := x\<rparr>) c s7;
          s9 = s8\<lparr>df := map fillna0_row (df s8)\<rparr>
      in publish s9)))))))))))))"

text \<open>\<open>calculate_indicators\<close>: the \<open>except Exception\<close> clause logs what the block
  raised and returns.\<close>

definition calculate_indicators :: "('r, 'a, 'm, 'v) ta_lib \<Rightarrow> client \<Rightarrow> client" where
  "calculate_indicators lib s =
     (case calculate_indicators_try lib s of
        (None, s') \<Rightarrow> s'
      | (Some e, s') \<Rightarrow> s'\<lparr>error_log := error_log s' @ [e]\<rparr>)"

subsection \<open>on_message\<close>

text \<open>
  A text message after \<open>json.loads\<close>: which of the keys \<open>result\<close> and \<open>error\<close> it
  has, and its \<open>e\<close> and \<open>k\<close> entries. Each field of the kline is given as its
  conversion (\<open>pd.to_datetime\<close>, \<open>float\<close>, \<open>int\<close>): \<open>None\<close> when the key is missing
  or the conversion raises. \<open>float\<close> accepts the text \<open>nan\<close>, so a converted float
  may be NaN.
\<close>

record kline =
  k_t :: "int option"
  k_o :: "pyfloat option"
  k_h :: "pyfloat option"
  k_l :: "pyfloat option"
  k_c :: "pyfloat option"
  k_v :: "pyfloat option"
  k_n :: "int option"
  k_q :: "pyfloat option"
  k_T :: "int option"

record json_data =
  has_result :: bool
  has_error :: bool
  e_entry :: "string option"
  k_entry :: "kline option"

text \<open>\<open>Text None\<close> is a text that \<open>json.loads\<close> rejects, or that is not a JSON
  object with the tests on it raising.\<close>

datatype message = Bytes | Text "json_data option"

text \<open>\<open>new_data\<close>: the dictionary of the nine converted fields; the indicator columns
  of the new row are NaN after \<open>pd.concat\<close>.\<close>

definition new_data :: "kline \<Rightarrow> row option" where
  "new_data k =
     (if k_t k = None \<or> k_o k = None \<or> k_h k = None \<or> k_l k = None \<or> k_c k = None \<or>
         k_v k = None \<or> k_n k = None \<or> k_q k = None \<or> k_T k = None
      then None
      else Some \<lparr>timestamp = the (k_t k), open_price = the (k_o k), high = the (k_h k),
                 low = the (k_l k), close = the (k_c k), volume = the (k_v k),
                 trades = the (k_n k), quote_volume = the (k_q k), close_time = the (k_T k),
                 rsi = NaN, sma_20 = NaN, sma_50 = NaN, macd = NaN, macd_signal = NaN,
                 macd_diff = NaN, vwap = NaN\<rparr>)"

text \<open>\<open>df.tail(1000)\<close> when the frame has more than 1000 rows.\<close>

definition keep_last_1000 :: "row list \<Rightarrow> row list" where
  "keep_last_1000 rows =
     (if length rows > 1000 then drop (length rows - 1000) rows else rows)"

definition caught :: "error \<Rightarrow> client \<Rightarrow> client" where
  "caught e s = s\<lparr>error_log := error_log s @ [e]\<rparr>"

definition on_message :: "('r, 'a, 'm, 'v) ta_lib \<Rightarrow> client \<Rightarrow> message \<Rightarrow> client" where
  "on_message lib s message =
     (case message of
        Bytes \<Rightarrow> s
      | Text None \<Rightarrow> caught MessageError s
      | Text (Some d) \<Rightarrow>
          if has_result d then s
          else if has_error d then s
          else if e_entry d = Some ''kline'' then
            (case k_entry d of
               None \<Rightarrow> caught MessageError s
             | Some k \<Rightarrow>
                 (case new_data k of
                    None \<Rightarrow> caught MessageError s
                  | Some new_row \<Rightarrow>
                      calculate_indicators lib
                        (s\<lparr>df := keep_last_1000 (df s @ [new_row])\<rparr>)))
          else s)"

subsection \<open>The connection\<close>

definition on_error :: "client \<Rightarrow> client" where
  "on_error s = s\<lparr>is_connected := False\<rparr>"

text \<open>\<open>start\<close> makes a new WebSocketApp and enters its \<open>run_forever\<close>; the callbacks
  that the library then makes are the events that follow.\<close>

definition start :: "client \<Rightarrow> client" where
  "start s = s\<lparr>ws := True, effects := effects s @ [RunForever]\<rparr>"

definition on_close :: "websocket_config \<Rightarrow> client \<Rightarrow> client" where
  "on_close cfg s =
     (let s1 = s\<lparr>is_connected := False\<rparr>
      in if reconnect_attempts s1 < max_reconnect_attempts cfg then
           start (s1\<lparr>reconnect_attempts := reconnect_attempts s1 + 1,
                      effects := effects s1 @ [Sleep (reconnect_delay cfg)]\<rparr>)
         else s1)"

text \<open>\<open>send_ok\<close> tells whether the library's \<open>send\<close> returns, rather than raises.\<close>

definition on_open :: "bool \<Rightarrow> client \<Rightarrow> client" where
  "on_open send_ok s =
     (let s1 = s\<lparr>is_connected := True, reconnect_attempts := 0\<rparr>
      in if send_ok then s1\<lparr>effects := effects s1 @ [Send (SUBSCRIBE (stream_name s1))]\<rparr>
         else (caught SendError s1)
                \<lparr>is_connected := False, effects := effects s1 @ [CloseTransport]\<rparr>)"

text \<open>\<open>unsubscribe\<close> has no \<open>try\<close>: an exception of \<open>send\<close> goes to the caller.\<close>

definition unsubscribe :: "bool \<Rightarrow> client \<Rightarrow> error + client" where
  "unsubscribe send_ok s =
     (if ws s \<and> is_connected s then
        (if send_ok
         then Inr (s\<lparr>effects := effects s @ [Send (UNSUBSCRIBE (stream_name s)), CloseTransport],
                     is_connected := False\<rparr>)
         else Inl SendError)
      else Inr s)"

text \<open>The callbacks of the library as events, and a client's run over a sequence of
  them.\<close>

datatype event = Opened bool | Closed | Errored | Received message

definition handle ::
  "websocket_config \<Rightarrow> ('r, 'a, 'm, 'v) ta_lib \<Rightarrow> client \<Rightarrow> event \<Rightarrow> client" where
  "handle cfg lib s ev =
     (case ev of
        Opened send_ok \<Rightarrow> on_open send_ok s
      | Closed \<Rightarrow> on_close cfg s
      | Errored \<Rightarrow> on_error s
      | Received m \<Rightarrow> on_message lib s m)"

subsection \<open>Counting reconnects\<close>

text \<open>The number of times \<open>start\<close> has entered \<open>run_forever\<close>, the number of close
  events in a sequence, and the test for an open event.\<close>

definition starts :: "client \<Rightarrow> nat" where
  "starts s = count_list (effects s) RunForever"

definition closes :: "event list \<Rightarrow> nat" where
  "closes evs = count_list evs Closed"

fun is_Opened :: "event \<Rightarrow> bool" where
  "is_Opened (Opened b) = True"
| "is_Opened _ = False"

text \<open>A decoded text message is a kline message with payload \<open>k\<close> when it passes the
  two early returns and the test \<open>data['e'] == 'kline'\<close>, and has the entry \<open>k\<close>.\<close>

definition is_kline :: "json_data \<Rightarrow> kline \<Rightarrow> bool" where
  "is_kline d k =
     (\<not> has_result d \<and> \<not> has_error d \<and> e_entry d = Some ''kline'' \<and> k_entry d = Some k)"

subsection \<open>Fixtures\<close>

text \<open>A stand-in for the \<open>ta\<close> library: the indicator objects are the columns they are
  built from, the accessors return constant or copied columns, and the VWAP constructor
  raises when \<open>vwap_raises\<close> is set.\<close>

definition ta_fixture ::
  "bool \<Rightarrow> (pyfloat list, pyfloat list, pyfloat list, pyfloat list) ta_lib" where
  "ta_fixture vwap_raises =
     \<lparr>RSIIndicator = Inr,
      rsi_method = (\<lambda>c. Inr (map (\<lambda>_. Num 50) c)),
      SMAIndicator = (\<lambda>c w. Inr c),
      sma_indicator = Inr,
      MACD = Inr,
      macd_method = (\<lambda>c. Inr (map (\<lambda>_. Num 0) c)),
      macd_signal_method = (\<lambda>c. Inr (map (\<lambda>_. Num 0) c)),
      macd_diff_method = (\<lambda>c. Inr (map (\<lambda>_. Num 0) c)),
      VolumeWeightedAveragePrice = (\<lambda>h l c v. if vwap_raises then Inl DataError else Inr c),
      volume_weighted_average_price = Inr\<rparr>"

text \<open>A client that has connected and subscribed, the same client after
  \<open>unsubscribe\<close>, and seven events with six closes and no open among them.\<close>

definition subscribed_client :: client where
  "subscribed_client = on_open True (start (client_init ''btcusdt'' ''1m''))"

definition unsubscribed_client :: client where
  "unsubscribed_client =
     subscribed_client
       \<lparr>effects := effects subscribed_client @
          [Send (UNSUBSCRIBE ''btcusdt@kline_1m''), CloseTransport],
        is_connected := False\<rparr>"

definition close_events :: "event list" where
  "close_events = [Closed, Errored, Closed, Closed, Closed, Closed, Closed]"


text \<open>A kline with open time \<open>t\<close>, the message that carries it and the row it becomes;
  a window of 1000 rows with open times 0 to 999, and a window of one row with open
  time 5.\<close>

definition kline_of :: "int \<Rightarrow> kline" where
  "kline_of t =
     \<lparr>k_t = Some t, k_o = Some (Num 100), k_h = Some (Num 101), k_l = Some (Num 99),
      k_c = Some (Num 100), k_v = Some (Num 10), k_n = Some 7, k_q = Some (Num 1000),
      k_T = Some (t + 59999)\<rparr>"

definition kline_data :: "int \<Rightarrow> json_data" where
  "kline_data t =
     \<lparr>has_result = False, has_error = False, e_entry = Some ''kline'',
      k_entry = Some (kline_of t)\<rparr>"

definition candle_row :: "int \<Rightarrow> row" where
  "candle_row t =
     \<lparr>timestamp = t, open_price = Num 100, high = Num 101, low = Num 99, close = Num 100,
      volume = Num 10, trades = 7, quote_volume = Num 1000, close_time = t + 59999,
      rsi = NaN, sma_20 = NaN, sma_50 = NaN, macd = NaN, macd_signal = NaN,
      macd_diff = NaN, vwap = NaN\<rparr>"

definition full_client :: client where
  "full_client = (client_init ''btcusdt'' ''1m'')\<lparr>df := map (\<lambda>i. candle_row (int i)) [0..<1000]\<rparr>"

definition one_candle_client :: client where
  "one_candle_client = (client_init ''btcusdt'' ''1m'')\<lparr>df := [candle_row 5]\<rparr>"


text \<open>A quiet row, on which no rule fires, and a frame of 50 rows: 49 quiet rows and a
  last row \<open>r\<close>. A client with that frame and an empty queue, as the dashboard sets it
  up, and one with no queue, as \<open>binance_ws_client.py\<close> run on its own creates it.\<close>

definition flat_row :: row where
  "flat_row =
     \<lparr>timestamp = 0, open_price = Num 100, high = Num 100, low = Num 100, close = Num 100,
      volume = Num 10, trades = 7, quote_volume = Num 1000, close_time = 59999,
      rsi = Num 50, sma_20 = Num 100, sma_50 = Num 100, macd = Num 0, macd_signal = Num 0,
      macd_diff = Num 0, vwap = Num 100\<rparr>"

definition frame50 :: "row \<Rightarrow> row list" where
  "frame50 r = replicate 49 flat_row @ [r]"

definition dashboard_client :: "row \<Rightarrow> client" where
  "dashboard_client r =
     (client_init ''btcusdt'' ''1m'')\<lparr>df := frame50 r, data_queue := Some []\<rparr>"

definition standalone_client :: "row \<Rightarrow> client" where
  "standalone_client r = (client_init ''btcusdt'' ''1m'')\<lparr>df := frame50 r\<rparr>"

text \<open>Last rows: oversold; oversold with a bearish VWAP cross; overbought; a bullish
  VWAP cross on high volume. Then the signals that three of them give.\<close>

definition oversold_row :: row where
  "oversold_row = flat_row\<lparr>rsi := Num 20\<rparr>"

definition both_row :: row where
  "both_row = flat_row\<lparr>rsi := Num 20, close := Num 90\<rparr>"

definition overbought_row :: row where
  "overbought_row = flat_row\<lparr>rsi := Num 80\<rparr>"

definition vwap_cross_row :: row where
  "vwap_cross_row = flat_row\<lparr>close := Num 110, volume := Num 50\<rparr>"

definition both_signal :: signal where
  "both_signal =
     \<lparr>sig_type = ''long'', strength = 3 / 2, price = Num 90, stop_loss = Num (441 / 5),
      take_profit = Num (927 / 10),
      reasons = [''RSI oversold'', ''Price crossed below VWAP'']\<rparr>"

definition overbought_signal :: signal where
  "overbought_signal =
     \<lparr>sig_type = ''short'', strength = 1, price = Num 100, stop_loss = Num 102,
      take_profit = Num 97, reasons = [''RSI overbought'']\<rparr>"

definition vwap_cross_signal :: signal where
  "vwap_cross_signal =
     \<lparr>sig_type = ''long'', strength = 1 / 2, price = Num 110, stop_loss = Num (539 / 5),
      take_profit = Num (1133 / 10), reasons = [''Price crossed above VWAP'']\<rparr>"


text \<open>A client whose one-row frame has been published to the queue. A stand-in
  library whose call number \<open>k\<close>, counted from 0 in the order of the \<open>try\<close> block,
  raises, while the others return constant columns; and the row that the first \<open>n\<close>
  column assignments with those constants make of the published row.\<close>

definition published_client :: client where
  "published_client =
     (client_init ''btcusdt'' ''1m'')
       \<lparr>df := [oversold_row], data_queue := Some [DataFrame [oversold_row]]\<rparr>"

definition ta_raising ::
  "nat \<Rightarrow> (pyfloat list, pyfloat list \<times> nat, pyfloat list, pyfloat list) ta_lib" where
  "ta_raising k =
     \<lparr>RSIIndicator = (\<lambda>c. if k = 0 then Inl DataError else Inr c),
      rsi_method = (\<lambda>c. if k = 1 then Inl DataError else Inr (map (\<lambda>_. Num 25) c)),
      SMAIndicator =
        (\<lambda>c w. if (k = 2 \<and> w = 20) \<or> (k = 3 \<and> w = 50) then Inl DataError else Inr (c, w)),
      sma_indicator =
        (\<lambda>a. if (k = 4 \<and> snd a = 20) \<or> (k = 5 \<and> snd a = 50) then Inl DataError
             else Inr (map (\<lambda>_. Num (real (snd a))) (fst a))),
      MACD = (\<lambda>c. if k = 6 then Inl DataError else Inr c),
      macd_method = (\<lambda>c. if k = 7 then Inl DataError else Inr (map (\<lambda>_. Num 1) c)),
      macd_signal_method = (\<lambda>c. if k = 8 then Inl DataError else Inr (map (\<lambda>_. Num 2) c)),
      macd_diff_method = (\<lambda>c. if k = 9 then Inl DataError else Inr (map (\<lambda>_. Num (- 1)) c)),
      VolumeWeightedAveragePrice = (\<lambda>h l c v. if k = 10 then Inl DataError else Inr c),
      volume_weighted_average_price =
        (\<lambda>c. if k = 11 then Inl DataError else Inr (map (\<lambda>_. Num 99) c))\<rparr>"

definition staged :: "nat \<Rightarrow> row" where
  "staged n =
     oversold_row
       \<lparr>rsi := (if 1 \<le> n then Num 25 else Num 20),
        sma_20 := (if 2 \<le> n then Num 20 else Num 100),
        sma_50 := (if 3 \<le> n then Num 50 else Num 100),
        macd := (if 4 \<le> n then Num 1 else Num 0),
        macd_signal := (if 5 \<le> n then Num 2 else Num 0),
        macd_diff := (if 6 \<le> n then Num (- 1) else Num 0),
        vwap := (if 7 \<le> n then Num 99 else Num 100)\<rparr>"

section \<open>The frame under the pipeline\<close>

text \<open>None of the steps of \<open>calculate_indicators\<close> adds or removes a row, changes a
  time column, or touches the connection.\<close>


lemma length_set_column: "length (set_column upd vals rows) = length rows"
  by (simp add: set_column_def)

lemma map_set_column:
  assumes "\<And>x r. f (upd x r) = f r"
  shows "map f (set_column upd vals rows) = map f rows"
proof -
  have "map f (set_column upd vals rows) = map (f \<circ> snd) (enumerate 0 rows)"
    by (simp add: set_column_def assms split_def comp_def)
  also have "\<dots> = map f (map snd (enumerate 0 rows))"
    by (simp only: map_map)
  also have "map snd (enumerate 0 rows) = rows"
    by (simp add: enumerate_eq_zip)
  finally show ?thesis .
qed

lemma length_ffill_from: "length (ffill_from p rows) = length rows"
  by (induction rows arbitrary: p) simp_all

lemma length_ffill: "length (ffill rows) = length rows"
  by (cases rows) (simp_all add: length_ffill_from)

lemma timestamp_ffill_row: "timestamp (ffill_row p r) = timestamp r"
  by (simp add: ffill_row_def)

lemma timestamp_ffill_from: "map timestamp (ffill_from p rows) = map timestamp rows"
  by (induction rows arbitrary: p) (simp_all add: timestamp_ffill_row)

lemma timestamp_ffill: "map timestamp (ffill rows) = map timestamp rows"
  by (cases rows) (simp_all add: timestamp_ffill_from)

lemma timestamp_fillna0: "map (timestamp \<circ> fillna0_row) rows = map timestamp rows"
  by (simp add: fillna0_row_def)

lemma generate_trading_signals_frame:
  "generate_trading_signals s = Inr s' \<Longrightarrow>
   df s' = df s \<and> effects s' = effects s \<and> reconnect_attempts s' = reconnect_attempts s"
  by (auto simp: generate_trading_signals_def Let_def split: if_splits option.splits)

lemma publish_frame:
  "df (snd (publish s)) = df s \<and> effects (snd (publish s)) = effects s \<and>
   reconnect_attempts (snd (publish s)) = reconnect_attempts s"
  by (auto simp: publish_def Let_def split: sum.splits option.splits
      dest!: generate_trading_signals_frame)

lemma assign_simps:
  "df (assign upd c s) = set_column upd c (df s)"
  "effects (assign upd c s) = effects s"
  "reconnect_attempts (assign upd c s) = reconnect_attempts s"
  "data_queue (assign upd c s) = data_queue s"
  "error_log (assign upd c s) = error_log s"
  by (simp_all add: assign_def)

lemma try_frame:
  "length (df (snd (calculate_indicators_try lib s))) = length (df s)"
  unfolding calculate_indicators_try_def try_call_def Let_def
  by (simp add: assign_simps length_set_column length_ffill publish_frame split: sum.splits)

lemma try_timestamps:
  "map timestamp (df (snd (calculate_indicators_try lib s))) = map timestamp (df s)"
  unfolding calculate_indicators_try_def try_call_def Let_def
  by (simp add: assign_simps map_set_column timestamp_ffill timestamp_fillna0 publish_frame split: sum.splits)

lemma try_conn:
  "effects (snd (calculate_indicators_try lib s)) = effects s \<and>
   reconnect_attempts (snd (calculate_indicators_try lib s)) = reconnect_attempts s"
  unfolding calculate_indicators_try_def try_call_def Let_def
  by (simp add: assign_simps publish_frame split: sum.splits)

section \<open>The position-state policy and the risk check\<close>

lemma check_risk_limits_iff:
  "check_risk_limits cfg s \<longleftrightarrow>
     \<not> (daily_trades s \<ge> max_daily_trades cfg \<or> daily_loss s \<ge> max_daily_loss cfg \<or>
        ((in_long_position s \<or> in_short_position s) \<and> max_open_positions cfg \<le> 1))"
  by (simp add: check_risk_limits_def)

lemma generate_signals_daily_trades:
  "daily_trades (generate_signals cfg s r m g) =
     (if position_opened s (generate_signals cfg s r m g) then daily_trades s + 1
      else daily_trades s)"
  by (auto simp: generate_signals_def position_opened_def Let_def split: option.splits)

lemma generate_signals_denied:
  "\<not> check_risk_limits cfg s \<Longrightarrow> generate_signals cfg s r m g = s"
  by (simp add: generate_signals_def Let_def split: option.splits)

lemma generate_signals_le:
  "daily_trades s \<le> max_daily_trades cfg \<Longrightarrow>
   daily_trades (generate_signals cfg s r m g) \<le> max_daily_trades cfg"
  by (auto simp: generate_signals_def check_risk_limits_def Let_def split: option.splits)

lemma on_indicators_le:
  "daily_trades s \<le> max_daily_trades cfg \<Longrightarrow>
   daily_trades (on_indicators cfg s v) \<le> max_daily_trades cfg"
  by (cases v) (simp add: on_indicators_def generate_signals_le)

lemma run_le:
  "daily_trades s \<le> max_daily_trades cfg \<Longrightarrow>
   daily_trades (foldl (on_indicators cfg) s ticks) \<le> max_daily_trades cfg"
  by (induction ticks arbitrary: s) (simp_all add: on_indicators_le)

lemmas trader_eval =
  on_indicators_def generate_signals_def trader_init_def RISK_CONFIG_def
  INDICATORS_CONFIG_def check_risk_limits_def Let_def rsi_crossed_below_oversold_def
  rsi_crossed_above_overbought_def macd_crossed_above_signal_def
  macd_crossed_below_signal_def

text \<open>
  C5. \<open>check_risk_limits\<close> denies exactly when the daily trades have reached
  \<open>max_daily_trades\<close>, or the daily loss has reached \<open>max_daily_loss\<close>, or a position
  is open while \<open>max_open_positions \<le> 1\<close>; and when it denies, \<open>generate_signals\<close>
  leaves the trader as it is: no position is entered and no order placed. A call of
  \<open>generate_signals\<close> adds one to \<open>daily_trades\<close> when it opens a position and leaves
  the counter alone otherwise. With the configured limit of 10, a trader that has made 10
  trades is left unchanged by any further tick, and over every sequence of ticks from the
  initial state \<open>daily_trades\<close> stays at or below 10.
\<close>

theorem C5_risk_gate:
  "(check_risk_limits cfg s \<longleftrightarrow>
      \<not> (daily_trades s \<ge> max_daily_trades cfg \<or> daily_loss s \<ge> max_daily_loss cfg \<or>
         ((in_long_position s \<or> in_short_position s) \<and> max_open_positions cfg \<le> 1))) \<and>
   (\<not> check_risk_limits cfg s \<longrightarrow> generate_signals cfg s r m g = s) \<and>
   (daily_trades s \<ge> max_daily_trades cfg \<or> daily_loss s \<ge> max_daily_loss cfg \<or>
    ((in_long_position s \<or> in_short_position s) \<and> max_open_positions cfg \<le> 1) \<longrightarrow>
      generate_signals cfg s r m g = s) \<and>
   daily_trades (generate_signals cfg s r m g) =
     (if position_opened s (generate_signals cfg s r m g) then daily_trades s + 1
      else daily_trades s) \<and>
   (daily_trades s \<ge> 10 \<longrightarrow> generate_signals RISK_CONFIG s r m g = s) \<and>
   daily_trades (foldl (on_indicators RISK_CONFIG) trader_init ticks) \<le> 10"
proof -
  have a: "daily_trades s \<ge> 10 \<longrightarrow> generate_signals RISK_CONFIG s r m g = s"
    by (simp add: generate_signals_denied check_risk_limits_def RISK_CONFIG_def)
  have "daily_trades trader_init \<le> max_daily_trades RISK_CONFIG"
    by (simp add: trader_init_def RISK_CONFIG_def)
  then have "daily_trades (foldl (on_indicators RISK_CONFIG) trader_init ticks)
      \<le> max_daily_trades RISK_CONFIG"
    by (rule run_le)
  then have b: "daily_trades (foldl (on_indicators RISK_CONFIG) trader_init ticks) \<le> 10"
    by (simp add: RISK_CONFIG_def)
  have c: "\<not> check_risk_limits cfg s \<longrightarrow> generate_signals cfg s r m g = s"
    by (simp add: generate_signals_denied)
  show ?thesis
    using check_risk_limits_iff [of cfg s] generate_signals_daily_trades [of cfg s r m g] a b c
    by blast
qed

text \<open>The witness: at the trade limit, at the loss limit and with a position open, a
  tick that qualifies for a long entry (oversold cross and bullish MACD cross) changes
  nothing, while the same tick at 9 trades opens the position and makes the count 10.\<close>

theorem C5_risk_gate_witness:
  "daily_trades trader_at_limit \<ge> 10 \<and>
   \<not> check_risk_limits RISK_CONFIG trader_at_limit \<and>
   rsi_crossed_below_oversold trader_at_limit (Num 35) (Num 30) \<and>
   macd_crossed_above_signal (Num (-1)) (Num 0) (Num 1) (Num 0) \<and>
   generate_signals RISK_CONFIG trader_at_limit (Num 30) (Num 1) (Num 0) = trader_at_limit \<and>
   daily_loss trader_at_loss_limit \<ge> max_daily_loss RISK_CONFIG \<and>
   \<not> check_risk_limits RISK_CONFIG trader_at_loss_limit \<and>
   generate_signals RISK_CONFIG trader_at_loss_limit (Num 30) (Num 1) (Num 0) =
     trader_at_loss_limit \<and>
   in_long_position trader_in_long \<and> max_open_positions RISK_CONFIG \<le> 1 \<and>
   \<not> check_risk_limits RISK_CONFIG trader_in_long \<and>
   generate_signals RISK_CONFIG trader_in_long (Num 30) (Num 1) (Num 0) = trader_in_long \<and>
   position_opened (trader_at_limit\<lparr>daily_trades := 9\<rparr>)
     (generate_signals RISK_CONFIG (trader_at_limit\<lparr>daily_trades := 9\<rparr>)
        (Num 30) (Num 1) (Num 0)) \<and>
   daily_trades
     (generate_signals RISK_CONFIG (trader_at_limit\<lparr>daily_trades := 9\<rparr>)
        (Num 30) (Num 1) (Num 0)) = 10 \<and>
   daily_trades (foldl (on_indicators RISK_CONFIG) trader_init qualifying_ticks) \<le> 10"
proof -
  have h: "daily_trades trader_at_limit \<ge> 10"
    by (simp add: trader_at_limit_def trader_init_def)
  have p: "position_opened (trader_at_limit\<lparr>daily_trades := 9\<rparr>)
     (generate_signals RISK_CONFIG (trader_at_limit\<lparr>daily_trades := 9\<rparr>)
        (Num 30) (Num 1) (Num 0))"
    by (simp add: position_opened_def trader_at_limit_def trader_eval)
  have f: "rsi_crossed_below_oversold trader_at_limit (Num 35) (Num 30) \<and>
     macd_crossed_above_signal (Num (-1)) (Num 0) (Num 1) (Num 0)"
    by (simp add: trader_at_limit_def trader_eval)
  have l: "daily_loss trader_at_loss_limit \<ge> max_daily_loss RISK_CONFIG \<and>
     daily_trades trader_at_loss_limit < max_daily_trades RISK_CONFIG \<and>
     \<not> in_long_position trader_at_loss_limit \<and> \<not> in_short_position trader_at_loss_limit"
    by (simp add: trader_at_loss_limit_def trader_at_limit_def trader_init_def RISK_CONFIG_def)
  have o: "in_long_position trader_in_long \<and> max_open_positions RISK_CONFIG \<le> 1 \<and>
     daily_trades trader_in_long < max_daily_trades RISK_CONFIG \<and>
     daily_loss trader_in_long < max_daily_loss RISK_CONFIG"
    by (simp add: trader_in_long_def trader_at_limit_def trader_init_def RISK_CONFIG_def)
  have x: "\<not> check_risk_limits RISK_CONFIG trader_at_loss_limit \<and>
     generate_signals RISK_CONFIG trader_at_loss_limit (Num 30) (Num 1) (Num 0) =
       trader_at_loss_limit"
    using l
      C5_risk_gate [of RISK_CONFIG trader_at_loss_limit "Num 30" "Num 1" "Num 0" "[]"]
    by blast
  have y: "\<not> check_risk_limits RISK_CONFIG trader_in_long \<and>
     generate_signals RISK_CONFIG trader_in_long (Num 30) (Num 1) (Num 0) = trader_in_long"
    using o C5_risk_gate [of RISK_CONFIG trader_in_long "Num 30" "Num 1" "Num 0" "[]"]
    by blast
  have z: "\<not> check_risk_limits RISK_CONFIG trader_at_limit \<and>
     generate_signals RISK_CONFIG trader_at_limit (Num 30) (Num 1) (Num 0) = trader_at_limit \<and>
     daily_trades (foldl (on_indicators RISK_CONFIG) trader_init qualifying_ticks) \<le> 10"
    using h
      C5_risk_gate [of RISK_CONFIG trader_at_limit "Num 30" "Num 1" "Num 0" qualifying_ticks]
    by (simp add: RISK_CONFIG_def)
  have w: "daily_trades
     (generate_signals RISK_CONFIG (trader_at_limit\<lparr>daily_trades := 9\<rparr>)
        (Num 30) (Num 1) (Num 0)) = 10"
    using p
      C5_risk_gate [of RISK_CONFIG "trader_at_limit\<lparr>daily_trades := 9\<rparr>"
        "Num 30" "Num 1" "Num 0" "[]"]
    by simp
  show ?thesis
    using h p f l o x y z w by blast
qed

text \<open>What holds of the policy: a long position is entered only on the conjunction of
  the two crosses, and the two flags are never both set.\<close>

lemma long_entry_only_on_conjunction:
  "in_long_position (generate_signals cfg s r m g) \<Longrightarrow> \<not> in_long_position s \<Longrightarrow>
   \<exists>lr lm ls. last_rsi s = Some lr \<and> last_macd s = Some lm \<and> last_macd_signal s = Some ls \<and>
     rsi_crossed_below_oversold s lr r \<and> macd_crossed_above_signal lm ls m g"
  by (auto simp: generate_signals_def Let_def split: option.splits prod.splits if_splits)

lemma one_position:
  "\<not> (in_long_position s \<and> in_short_position s) \<Longrightarrow>
   \<not> (in_long_position (generate_signals cfg s r m g) \<and>
      in_short_position (generate_signals cfg s r m g))"
  by (auto simp: generate_signals_def Let_def split: option.splits prod.splits if_splits)

text \<open>What does not: with \<open>max_open_positions \<le> 1\<close> the risk check returns before the
  exit branches whenever a position is open, and the short entry repeats the condition
  of the long entry, so it is never reached.\<close>

lemma risk_gate_blocks_open_position:
  "in_long_position s \<or> in_short_position s \<Longrightarrow> max_open_positions cfg \<le> 1 \<Longrightarrow>
   generate_signals cfg s r m g = s"
  by (simp add: generate_signals_denied check_risk_limits_def)

lemma short_never_entered:
  "in_short_position (generate_signals cfg s r m g) \<Longrightarrow> in_short_position s"
  by (auto simp: generate_signals_def Let_def split: option.splits prod.splits if_splits)

text \<open>
  C3. The claim is that an open long position is exited when RSI crosses above the
  overbought threshold or MACD crosses below its signal line. The run below opens a long
  position on its second tick; on the third tick both exit conditions hold, and the
  position stays open with no close order placed: \<open>check_risk_limits\<close> fails on the open
  position and \<open>generate_signals\<close> returns before its exit branch.
\<close>

theorem C3_long_position_not_exited:
  "(let s2 = foldl (on_indicators RISK_CONFIG) trader_init (take 2 qualifying_ticks);
        s3 = foldl (on_indicators RISK_CONFIG) trader_init qualifying_ticks
    in in_long_position s2 \<and> orders s2 = [PlaceLong] \<and>
       rsi_crossed_above_overbought s2 (Num 30) (Num 75) \<and>
       macd_crossed_below_signal (Num 1) (Num 0) (Num (-1)) (Num 0) \<and>
       in_long_position s3 \<and> orders s3 = [PlaceLong])"
  by (simp add: qualifying_ticks_def trader_eval)

section \<open>The connection\<close>

lemma calculate_indicators_conn:
  "effects (calculate_indicators lib s) = effects s \<and>
   reconnect_attempts (calculate_indicators lib s) = reconnect_attempts s"
  using try_conn [of lib s]
  by (cases "calculate_indicators_try lib s") (auto simp: calculate_indicators_def split: option.splits)

lemma on_message_conn:
  "effects (on_message lib s m) = effects s \<and>
   reconnect_attempts (on_message lib s m) = reconnect_attempts s"
  by (simp add: on_message_def caught_def calculate_indicators_conn
      split: message.splits option.splits)

lemma on_close_retry:
  "reconnect_attempts s < max_reconnect_attempts cfg \<Longrightarrow>
   on_close cfg s =
     s\<lparr>is_connected := False, reconnect_attempts := reconnect_attempts s + 1,
       effects := effects s @ [Sleep (reconnect_delay cfg), RunForever], ws := True\<rparr>"
  by (simp add: on_close_def start_def Let_def)

lemma on_close_stop:
  "\<not> reconnect_attempts s < max_reconnect_attempts cfg \<Longrightarrow>
   on_close cfg s = s\<lparr>is_connected := False\<rparr>"
  by (simp add: on_close_def Let_def)

lemma on_open_resets: "reconnect_attempts (on_open ok s) = 0"
  by (simp add: on_open_def caught_def Let_def)

lemma handle_simps:
  "handle cfg lib s (Opened b) = on_open b s"
  "handle cfg lib s Closed = on_close cfg s"
  "handle cfg lib s Errored = on_error s"
  "handle cfg lib s (Received m) = on_message lib s m"
  by (simp_all add: handle_def)

lemma handle_step:
  assumes "\<not> is_Opened e"
  shows "starts (handle cfg lib s e) =
           starts s + (if e = Closed \<and> reconnect_attempts s < max_reconnect_attempts cfg then 1 else 0) \<and>
         reconnect_attempts (handle cfg lib s e) =
           reconnect_attempts s + (if e = Closed \<and> reconnect_attempts s < max_reconnect_attempts cfg then 1 else 0)"
proof (cases e)
  case (Opened b)
  with assms show ?thesis by simp
next
  case Closed
  then show ?thesis
    by (cases "reconnect_attempts s < max_reconnect_attempts cfg")
       (simp_all add: handle_simps on_close_retry on_close_stop starts_def)
next
  case Errored
  then show ?thesis by (simp add: handle_simps on_error_def starts_def)
next
  case (Received m)
  then show ?thesis
    using on_message_conn [of lib s m] by (simp add: handle_simps starts_def)
qed

lemma run_starts:
  "\<forall>e\<in>set evs. \<not> is_Opened e \<Longrightarrow>
   starts (foldl (handle cfg lib) s evs) =
     starts s + min (closes evs) (nat (max_reconnect_attempts cfg - reconnect_attempts s))"
proof (induction evs arbitrary: s)
  case Nil
  then show ?case by (simp add: closes_def)
next
  case (Cons e evs)
  then have ih: "starts (foldl (handle cfg lib) (handle cfg lib s e) evs) =
     starts (handle cfg lib s e) +
       min (closes evs) (nat (max_reconnect_attempts cfg - reconnect_attempts (handle cfg lib s e)))"
    by simp
  from Cons.prems have ne: "\<not> is_Opened e" by simp
  have c: "closes (e # evs) = (if e = Closed then 1 else 0) + closes evs"
    by (simp add: closes_def)
  show ?case
    using ih handle_step [OF ne, of cfg lib s] c
    by (auto simp: min_def)
qed

lemma lower_btcusdt: "lower ''btcusdt'' = ''btcusdt''"
  by (simp add: lower_def lower_char_def)

lemma subscribed_client_eval:
  "subscribed_client =
     \<lparr>symbol = ''btcusdt'', interval = ''1m'', ws = True, df = [], is_connected = True,
      reconnect_attempts = 0, data_queue = None,
      effects = [RunForever, Send (SUBSCRIBE ''btcusdt@kline_1m'')], error_log = []\<rparr>"
  by (simp add: subscribed_client_def on_open_def start_def client_init_def stream_name_def
      lower_btcusdt Let_def)

text \<open>
  C6. When \<open>on_close\<close> runs with \<open>reconnect_attempts\<close> below
  \<open>max_reconnect_attempts\<close> it adds one to the counter, sleeps \<open>reconnect_delay\<close> and
  then starts a new connection; otherwise it only marks the client disconnected.
  \<open>on_open\<close> sets the counter to zero. Over any sequence of events without an open, the
  number of new connection starts is the number of closes, capped at
  \<open>max_reconnect_attempts - reconnect_attempts\<close>: from a counter of zero, at most
  \<open>max_reconnect_attempts\<close> reconnects in a row.
\<close>

theorem C6_bounded_reconnect:
  "(reconnect_attempts s < max_reconnect_attempts cfg \<longrightarrow>
      on_close cfg s =
        s\<lparr>is_connected := False, reconnect_attempts := reconnect_attempts s + 1,
          effects := effects s @ [Sleep (reconnect_delay cfg), RunForever], ws := True\<rparr>) \<and>
   (\<not> reconnect_attempts s < max_reconnect_attempts cfg \<longrightarrow>
      on_close cfg s = s\<lparr>is_connected := False\<rparr>) \<and>
   reconnect_attempts (on_open send_ok s) = 0 \<and>
   (\<not> list_ex is_Opened evs \<longrightarrow>
      starts (foldl (handle cfg lib) s evs) =
        starts s + min (closes evs) (nat (max_reconnect_attempts cfg - reconnect_attempts s)))"
  using on_close_retry [of s cfg] on_close_stop [of s cfg] on_open_resets [of send_ok s]
    run_starts [of evs cfg lib s]
  unfolding list_ex_iff by blast

text \<open>The witness: a subscribed client with the configured limit of 5; six closes in a
  row give five reconnects.\<close>

theorem C6_bounded_reconnect_witness:
  "reconnect_attempts subscribed_client < max_reconnect_attempts WEBSOCKET_CONFIG \<and>
   effects (on_close WEBSOCKET_CONFIG subscribed_client) =
     effects subscribed_client @ [Sleep 5, RunForever] \<and>
   reconnect_attempts (on_close WEBSOCKET_CONFIG subscribed_client) = 1 \<and>
   \<not> reconnect_attempts (subscribed_client\<lparr>reconnect_attempts := 5\<rparr>)
       < max_reconnect_attempts WEBSOCKET_CONFIG \<and>
   on_close WEBSOCKET_CONFIG (subscribed_client\<lparr>reconnect_attempts := 5\<rparr>) =
     subscribed_client\<lparr>reconnect_attempts := 5, is_connected := False\<rparr> \<and>
   \<not> list_ex is_Opened close_events \<and> closes close_events = 6 \<and>
   starts (foldl (handle WEBSOCKET_CONFIG (ta_fixture False)) subscribed_client close_events) =
     starts subscribed_client + 5"
proof -
  have a: "reconnect_attempts subscribed_client < max_reconnect_attempts WEBSOCKET_CONFIG"
    by (simp add: subscribed_client_eval WEBSOCKET_CONFIG_def)
  have b: "\<not> reconnect_attempts (subscribed_client\<lparr>reconnect_attempts := 5\<rparr>)
       < max_reconnect_attempts WEBSOCKET_CONFIG"
    by (simp add: WEBSOCKET_CONFIG_def)
  have c: "\<not> list_ex is_Opened close_events \<and> closes close_events = 6"
    by (simp add: close_events_def closes_def)
  have d: "reconnect_attempts subscribed_client = 0 \<and> max_reconnect_attempts WEBSOCKET_CONFIG = 5
     \<and> reconnect_delay WEBSOCKET_CONFIG = 5"
    by (simp add: subscribed_client_eval WEBSOCKET_CONFIG_def)
  show ?thesis
    using a b c d
      C6_bounded_reconnect [of subscribed_client WEBSOCKET_CONFIG True close_events "ta_fixture False"]
      C6_bounded_reconnect [of "subscribed_client\<lparr>reconnect_attempts := 5\<rparr>" WEBSOCKET_CONFIG True "[]" "ta_fixture False"]
    by simp
qed

lemma unsubscribe_connected:
  "ws s \<and> is_connected s \<Longrightarrow>
   unsubscribe True s =
     Inr (s\<lparr>effects := effects s @ [Send (UNSUBSCRIBE (stream_name s)), CloseTransport],
            is_connected := False\<rparr>) \<and> unsubscribe False s = Inl SendError"
  by (simp add: unsubscribe_def)

lemma unsubscribe_idle: "\<not> (ws s \<and> is_connected s) \<Longrightarrow> unsubscribe send_ok s = Inr s"
  by (auto simp: unsubscribe_def)

lemma unsubscribe_attempts:
  "unsubscribe send_ok s = Inr s' \<Longrightarrow> reconnect_attempts s' = reconnect_attempts s"
  by (auto simp: unsubscribe_def split: if_splits)

text \<open>
  C2 as stated fails. A client that subscribed and then had \<open>on_error\<close> run is not
  connected, and \<open>unsubscribe\<close> does nothing on it: no UNSUBSCRIBE is sent and the
  transport is not closed. On a connected client \<open>unsubscribe\<close> sends and closes, and
  the close handler that the library then runs reconnects: it sleeps and starts again.
\<close>

theorem C2_unsubscribe_counterexample:
  "unsubscribe True (on_error subscribed_client) = Inr (on_error subscribed_client) \<and>
   effects (on_error subscribed_client) = [RunForever, Send (SUBSCRIBE ''btcusdt@kline_1m'')] \<and>
   unsubscribe True subscribed_client = Inr unsubscribed_client \<and>
   effects (on_close WEBSOCKET_CONFIG unsubscribed_client) =
     [RunForever, Send (SUBSCRIBE ''btcusdt@kline_1m''),
      Send (UNSUBSCRIBE ''btcusdt@kline_1m''), CloseTransport, Sleep 5, RunForever] \<and>
   reconnect_attempts (on_close WEBSOCKET_CONFIG unsubscribed_client) = 1"
  by (simp add: unsubscribed_client_def subscribed_client_eval on_error_def unsubscribe_def
      on_close_def start_def stream_name_def WEBSOCKET_CONFIG_def Let_def)

text \<open>
  C2, amended. On a client with a WebSocketApp and \<open>is_connected\<close> set, \<open>unsubscribe\<close>
  sends UNSUBSCRIBE, closes the transport and clears \<open>is_connected\<close> (when \<open>send\<close>
  raises, the exception goes to the caller); on any other client it does nothing. The
  close handler makes no exception for this close: run after \<open>unsubscribe\<close> with
  \<open>reconnect_attempts\<close> below the limit, it adds one to the counter, sleeps and starts
  a new connection.
\<close>

theorem C2_unsubscribe:
  "(ws s \<and> is_connected s \<longrightarrow>
      unsubscribe True s =
        Inr (s\<lparr>effects := effects s @ [Send (UNSUBSCRIBE (stream_name s)), CloseTransport],
               is_connected := False\<rparr>) \<and>
      unsubscribe False s = Inl SendError) \<and>
   (\<not> (ws s \<and> is_connected s) \<longrightarrow> unsubscribe send_ok s = Inr s) \<and>
   (unsubscribe send_ok s = Inr s' \<and> reconnect_attempts s < max_reconnect_attempts cfg \<longrightarrow>
      effects (on_close cfg s') = effects s' @ [Sleep (reconnect_delay cfg), RunForever] \<and>
      reconnect_attempts (on_close cfg s') = reconnect_attempts s + 1)"
proof -
  have "effects (on_close cfg s') = effects s' @ [Sleep (reconnect_delay cfg), RunForever] \<and>
      reconnect_attempts (on_close cfg s') = reconnect_attempts s + 1"
    if "unsubscribe send_ok s = Inr s'" "reconnect_attempts s < max_reconnect_attempts cfg"
  proof -
    have "reconnect_attempts s' = reconnect_attempts s"
      using that(1) by (rule unsubscribe_attempts)
    then show ?thesis
      using that(2) by (simp add: on_close_retry)
  qed
  then show ?thesis
    using unsubscribe_connected [of s] unsubscribe_idle [of s send_ok] by blast
qed

theorem C2_unsubscribe_witness:
  "ws subscribed_client \<and> is_connected subscribed_client \<and>
   \<not> (ws (on_error subscribed_client) \<and> is_connected (on_error subscribed_client)) \<and>
   unsubscribe True (on_error subscribed_client) = Inr (on_error subscribed_client) \<and>
   unsubscribe True subscribed_client =
     Inr (subscribed_client\<lparr>effects := effects subscribed_client @
            [Send (UNSUBSCRIBE (stream_name subscribed_client)), CloseTransport],
          is_connected := False\<rparr>) \<and>
   reconnect_attempts subscribed_client < max_reconnect_attempts WEBSOCKET_CONFIG \<and>
   reconnect_attempts
     (on_close WEBSOCKET_CONFIG
        (subscribed_client\<lparr>effects := effects subscribed_client @
            [Send (UNSUBSCRIBE (stream_name subscribed_client)), CloseTransport],
          is_connected := False\<rparr>)) = 1"
proof -
  have a: "ws subscribed_client \<and> is_connected subscribed_client \<and>
      reconnect_attempts subscribed_client = 0 \<and>
      reconnect_attempts subscribed_client < max_reconnect_attempts WEBSOCKET_CONFIG"
    by (simp add: subscribed_client_eval WEBSOCKET_CONFIG_def)
  have b: "\<not> (ws (on_error subscribed_client) \<and> is_connected (on_error subscribed_client))"
    by (simp add: on_error_def)
  show ?thesis
    using a b
      C2_unsubscribe [of subscribed_client True
        "subscribed_client\<lparr>effects := effects subscribed_client @
            [Send (UNSUBSCRIBE (stream_name subscribed_client)), CloseTransport],
          is_connected := False\<rparr>" WEBSOCKET_CONFIG]
      C2_unsubscribe [of "on_error subscribed_client" True "on_error subscribed_client" WEBSOCKET_CONFIG]
    by simp
qed

section \<open>The candle window\<close>

lemma calculate_indicators_frame:
  "length (df (calculate_indicators lib s)) = length (df s) \<and>
   map timestamp (df (calculate_indicators lib s)) = map timestamp (df s)"
  using try_frame [of lib s] try_timestamps [of lib s]
  by (cases "calculate_indicators_try lib s")
     (auto simp: calculate_indicators_def split: option.splits)

lemma keep_last_1000_drop:
  "keep_last_1000 (rows @ [r]) = drop (length rows + 1 - 1000) (rows @ [r])"
  by (simp add: keep_last_1000_def)

lemma on_message_kline:
  "is_kline d k \<Longrightarrow> new_data k = Some r \<Longrightarrow>
   on_message lib s (Text (Some d)) =
     calculate_indicators lib (s\<lparr>df := drop (length (df s) + 1 - 1000) (df s @ [r])\<rparr>)"
  by (simp add: on_message_def is_kline_def keep_last_1000_drop)

lemma on_message_kline_timestamps:
  assumes "is_kline d k" "new_data k = Some r"
  shows "map timestamp (df (on_message lib s (Text (Some d)))) =
     drop (length (df s) + 1 - 1000) (map timestamp (df s) @ [timestamp r])"
  using calculate_indicators_frame
    [of lib "s\<lparr>df := drop (length (df s) + 1 - 1000) (df s @ [r])\<rparr>"]
  by (simp add: on_message_kline [OF assms] drop_map)

lemma on_message_kline_length:
  assumes "is_kline d k" "new_data k = Some r"
  shows "length (df (on_message lib s (Text (Some d)))) = min 1000 (length (df s) + 1)"
  using calculate_indicators_frame
    [of lib "s\<lparr>df := drop (length (df s) + 1 - 1000) (df s @ [r])\<rparr>"]
  by (simp add: on_message_kline [OF assms])

lemma on_message_bound:
  "length (df s) \<le> 1000 \<Longrightarrow> length (df (on_message lib s m)) \<le> 1000"
proof (cases m)
  case Bytes
  assume "length (df s) \<le> 1000"
  with Bytes show ?thesis by (simp add: on_message_def)
next
  case (Text x)
  assume b: "length (df s) \<le> 1000"
  show ?thesis
  proof (cases x)
    case None
    with Text b show ?thesis by (simp add: on_message_def caught_def)
  next
    case (Some d)
    show ?thesis
    proof (cases "\<exists>k r. is_kline d k \<and> new_data k = Some r")
      case True
      then obtain k r where "is_kline d k" "new_data k = Some r" by blast
      then show ?thesis
        using on_message_kline_length [of d k r lib s] Text Some by simp
    next
      case False
      then show ?thesis
        using Text Some b
        by (auto simp: on_message_def is_kline_def caught_def split: option.splits)
    qed
  qed
qed

lemma handle_bound:
  "length (df s) \<le> 1000 \<Longrightarrow> length (df (handle cfg lib s e)) \<le> 1000"
  by (cases e)
     (simp_all add: handle_simps on_message_bound on_open_def on_close_def on_error_def
        start_def caught_def Let_def)

lemma run_bound:
  "length (df s) \<le> 1000 \<Longrightarrow> length (df (foldl (handle cfg lib) s evs)) \<le> 1000"
  by (induction evs arbitrary: s) (simp_all add: handle_bound)

lemma new_data_kline_of: "new_data (kline_of t) = Some (candle_row t)"
  by (simp add: new_data_def kline_of_def candle_row_def)

lemma is_kline_data: "is_kline (kline_data t) (kline_of t)"
  by (simp add: is_kline_def kline_data_def)

lemma sorted_drop_append:
  "sorted (xs @ [t :: int]) \<Longrightarrow> sorted (drop n (xs @ [t]))"
  by (rule sorted_wrt_drop)

text \<open>
  C9. Over every sequence of events from the initial client the frame never holds more
  than 1000 rows. A kline message whose fields convert appends its row and keeps the last
  1000 rows before the indicators are computed, which changes neither the number of rows
  nor their open times: the frame then has \<open>min 1000 (n + 1)\<close> rows, and their open
  times are the last 1000 of the old ones followed by the new one.
\<close>

theorem C9_window_bound:
  "length (df (foldl (handle cfg lib) (client_init sy itv) evs)) \<le> 1000 \<and>
   (is_kline d k \<and> new_data k = Some r \<longrightarrow>
      on_message lib s (Text (Some d)) =
        calculate_indicators lib (s\<lparr>df := drop (length (df s) + 1 - 1000) (df s @ [r])\<rparr>) \<and>
      length (df (on_message lib s (Text (Some d)))) = min 1000 (length (df s) + 1) \<and>
      map timestamp (df (on_message lib s (Text (Some d)))) =
        drop (length (df s) + 1 - 1000) (map timestamp (df s) @ [timestamp r]))"
proof -
  have "length (df (client_init sy itv)) \<le> 1000"
    by (simp add: client_init_def)
  then have "length (df (foldl (handle cfg lib) (client_init sy itv) evs)) \<le> 1000"
    by (rule run_bound)
  then show ?thesis
    using on_message_kline [of d k r lib s] on_message_kline_length [of d k r lib s]
      on_message_kline_timestamps [of d k r lib s]
    by blast
qed

text \<open>The witness: a full window with open times 0 to 999 receives the candle 1000; the
  window then holds the 1000 candles 1 to 1000.\<close>

theorem C9_window_bound_witness:
  "is_kline (kline_data 1000) (kline_of 1000) \<and> new_data (kline_of 1000) = Some (candle_row 1000) \<and>
   length (df full_client) = 1000 \<and>
   length (df (on_message (ta_fixture False) full_client (Text (Some (kline_data 1000))))) = 1000 \<and>
   map timestamp (df (on_message (ta_fixture False) full_client (Text (Some (kline_data 1000))))) =
     map int [1..<1001]"
proof -
  have a: "length (df full_client) = 1000"
    by (simp add: full_client_def)
  have b: "map timestamp (df full_client) = map int [0..<1000]"
    by (simp add: full_client_def candle_row_def)
  have c: "drop 1 (map int [0..<1000] @ [1000]) = map int [1..<1001]"
  proof -
    have "[1..<1001] = [1..<1000] @ [1000]"
      using upt_Suc_append [of 1 1000] by simp
    moreover have "drop 1 (map int [0..<1000]) = map int [1..<1000]"
      by (simp add: drop_map)
    ultimately show ?thesis by simp
  qed
  have h: "is_kline (kline_data 1000) (kline_of 1000) \<and>
      new_data (kline_of 1000) = Some (candle_row 1000)"
    by (simp add: new_data_kline_of is_kline_data)
  have "length (df (on_message (ta_fixture False) full_client (Text (Some (kline_data 1000))))) =
      min 1000 (length (df full_client) + 1) \<and>
    map timestamp (df (on_message (ta_fixture False) full_client (Text (Some (kline_data 1000))))) =
      drop (length (df full_client) + 1 - 1000)
        (map timestamp (df full_client) @ [timestamp (candle_row 1000)])"
    using h
      C9_window_bound [of "WEBSOCKET_CONFIG" "ta_fixture False" "''btcusdt''" "''1m''" "[]"
        "kline_data 1000" "kline_of 1000" "candle_row 1000" full_client]
    by blast
  then show ?thesis
    using h a b c by (simp add: candle_row_def)
qed

text \<open>
  C1 as stated fails: \<open>on_message\<close> never compares open times. On a window whose only
  candle has open time 5, a candle with open time 5 does not replace it but is added
  after it, and a candle with the older open time 3 is not dropped but added too, which
  leaves the open times out of order.
\<close>

theorem C1_append_only_counterexample:
  "map timestamp (df one_candle_client) = [5] \<and>
   map timestamp
     (df (on_message (ta_fixture False) one_candle_client (Text (Some (kline_data 5))))) = [5, 5] \<and>
   map timestamp
     (df (on_message (ta_fixture False) one_candle_client (Text (Some (kline_data 3))))) = [5, 3]"
  using on_message_kline_timestamps [OF is_kline_data new_data_kline_of,
      of "ta_fixture False" one_candle_client 5]
    on_message_kline_timestamps [OF is_kline_data new_data_kline_of,
      of "ta_fixture False" one_candle_client 3]
  by (simp add: one_candle_client_def candle_row_def)

text \<open>
  C1, amended. Every kline candle whose fields convert is appended as a new last row,
  whatever its open time: the open times of the window become the last 1000 of the old
  ones followed by the new one. So the open times stay non-decreasing whenever the new
  open time is not older than those already in the window.
\<close>

theorem C1_append_only:
  "is_kline d k \<and> new_data k = Some r \<longrightarrow>
     timestamp r = the (k_t k) \<and>
     map timestamp (df (on_message lib s (Text (Some d)))) =
       drop (length (df s) + 1 - 1000) (map timestamp (df s) @ [timestamp r]) \<and>
     last (map timestamp (df (on_message lib s (Text (Some d))))) = timestamp r \<and>
     (sorted (map timestamp (df s) @ [timestamp r]) \<longrightarrow>
        sorted (map timestamp (df (on_message lib s (Text (Some d))))))"
proof
  assume h: "is_kline d k \<and> new_data k = Some r"
  let ?ts = "map timestamp (df (on_message lib s (Text (Some d))))"
  have ts: "?ts = drop (length (df s) + 1 - 1000) (map timestamp (df s) @ [timestamp r])"
    using h on_message_kline_timestamps [of d k r lib s] by blast
  have t: "timestamp r = the (k_t k)"
    using h by (auto simp: new_data_def split: if_splits)
  have l: "last ?ts = timestamp r"
    unfolding ts by (simp add: last_drop)
  have "sorted (map timestamp (df s) @ [timestamp r]) \<longrightarrow> sorted ?ts"
    unfolding ts using sorted_drop_append by blast
  with ts t l show "timestamp r = the (k_t k) \<and>
     ?ts = drop (length (df s) + 1 - 1000) (map timestamp (df s) @ [timestamp r]) \<and>
     last ?ts = timestamp r \<and>
     (sorted (map timestamp (df s) @ [timestamp r]) \<longrightarrow> sorted ?ts)"
    by blast
qed

theorem C1_append_only_witness:
  "is_kline (kline_data 6) (kline_of 6) \<and> new_data (kline_of 6) = Some (candle_row 6) \<and>
   sorted (map timestamp (df one_candle_client) @ [timestamp (candle_row 6)]) \<and>
   map timestamp
     (df (on_message (ta_fixture False) one_candle_client (Text (Some (kline_data 6))))) = [5, 6] \<and>
   sorted (map timestamp
     (df (on_message (ta_fixture False) one_candle_client (Text (Some (kline_data 6))))))"
proof -
  have h: "is_kline (kline_data 6) (kline_of 6) \<and> new_data (kline_of 6) = Some (candle_row 6)"
    by (simp add: new_data_kline_of is_kline_data)
  have s: "sorted (map timestamp (df one_candle_client) @ [timestamp (candle_row 6)])"
    by (simp add: one_candle_client_def candle_row_def)
  show ?thesis
    using h s
      C1_append_only [of "kline_data 6" "kline_of 6" "candle_row 6" "ta_fixture False"
        one_candle_client]
    by (simp add: one_candle_client_def candle_row_def)
qed

section \<open>The multi-rule signal generator\<close>

lemma generate_trading_signals_short_frame:
  "length (df s) < 50 \<Longrightarrow> generate_trading_signals s = Inr s"
  by (simp add: generate_trading_signals_def)

lemma generate_trading_signals_queue:
  "data_queue s = Some q \<Longrightarrow> 50 \<le> length (df s) \<Longrightarrow>
   generate_trading_signals s =
     Inr (if long_signal (evaluate_rules (df s)) \<or> short_signal (evaluate_rules (df s))
          then s\<lparr>data_queue :=
                   Some (q @ [SignalData (signal_data (last (df s)) (evaluate_rules (df s)))])\<rparr>
          else s)"
  by (simp add: generate_trading_signals_def Let_def)

lemma generate_trading_signals_no_queue:
  "data_queue s = None \<Longrightarrow> 50 \<le> length (df s) \<Longrightarrow>
   long_signal (evaluate_rules (df s)) \<or> short_signal (evaluate_rules (df s)) \<Longrightarrow>
   generate_trading_signals s = Inl AttributeError"
  by (simp add: generate_trading_signals_def Let_def)

lemma foldl_fadd_replicate:
  "foldl fadd (Num a) (replicate n (Num v)) = Num (a + real n * v)"
  by (induction n arbitrary: a) (simp_all add: algebra_simps)

lemma frame50_simps:
  "length (frame50 r) = 50"
  "last (frame50 r) = r"
  "frame50 r ! 48 = flat_row"
  by (simp_all add: frame50_def nth_append)

lemma frame50_mean:
  "rolling_mean_last 20 (map volume (frame50 r)) = fdiv_nat (fadd (Num 190) (volume r)) 20"
  by (simp add: rolling_mean_last_def frame50_def flat_row_def foldl_fadd_replicate)

lemmas flag_defs =
  rsi_long_def rsi_short_def sma_long_def sma_short_def macd_long_def macd_short_def
  vwap_long_def vwap_short_def

lemma both_row_flags:
  "rsi_long both_row" "\<not> sma_long both_row flat_row" "\<not> sma_short both_row flat_row"
  "\<not> macd_long both_row flat_row" "\<not> macd_short both_row flat_row"
  "\<not> vwap_long both_row flat_row" "vwap_short both_row flat_row"
  "\<not> high_volume (frame50 both_row)"
  by (simp_all add: flag_defs high_volume_def frame50_simps frame50_mean both_row_def flat_row_def)

lemmas rule_steps =
  evaluate_rules_def Let_def rsi_rule_def sma_rule_def macd_rule_def volume_rule_def
  vwap_rule_def bullish_def bearish_def rule_vars_init_def frame50_simps

lemma both_row_rules:
  "evaluate_rules (frame50 both_row) =
     \<lparr>long_signal = True, short_signal = True, signal_strength = 3 / 2,
      signal_reasons = [''RSI oversold'', ''Price crossed below VWAP'']\<rparr>"
  by (simp add: rule_steps both_row_flags)

lemma overbought_row_flags:
  "\<not> rsi_long overbought_row" "rsi_short overbought_row"
  "\<not> sma_long overbought_row flat_row" "\<not> sma_short overbought_row flat_row"
  "\<not> macd_long overbought_row flat_row" "\<not> macd_short overbought_row flat_row"
  "\<not> vwap_long overbought_row flat_row" "\<not> vwap_short overbought_row flat_row"
  "\<not> high_volume (frame50 overbought_row)"
  by (simp_all add: flag_defs high_volume_def frame50_simps frame50_mean overbought_row_def
      flat_row_def)

lemma overbought_row_rules:
  "evaluate_rules (frame50 overbought_row) =
     \<lparr>long_signal = False, short_signal = True, signal_strength = 1,
      signal_reasons = [''RSI overbought'']\<rparr>"
  by (simp add: rule_steps overbought_row_flags)

lemma vwap_cross_row_flags:
  "\<not> rsi_long vwap_cross_row" "\<not> rsi_short vwap_cross_row"
  "\<not> sma_long vwap_cross_row flat_row" "\<not> sma_short vwap_cross_row flat_row"
  "\<not> macd_long vwap_cross_row flat_row" "\<not> macd_short vwap_cross_row flat_row"
  "vwap_long vwap_cross_row flat_row"
  "high_volume (frame50 vwap_cross_row)"
  by (simp_all add: flag_defs high_volume_def frame50_simps frame50_mean vwap_cross_row_def
      flat_row_def)

lemma oversold_row_flags:
  "rsi_long oversold_row"
  "\<not> sma_long oversold_row flat_row" "\<not> sma_short oversold_row flat_row"
  "\<not> macd_long oversold_row flat_row" "\<not> macd_short oversold_row flat_row"
  "\<not> vwap_long oversold_row flat_row" "\<not> vwap_short oversold_row flat_row"
  "\<not> high_volume (frame50 oversold_row)"
  by (simp_all add: flag_defs high_volume_def frame50_simps frame50_mean oversold_row_def
      flat_row_def)

lemma oversold_row_rules:
  "evaluate_rules (frame50 oversold_row) =
     \<lparr>long_signal = True, short_signal = False, signal_strength = 1,
      signal_reasons = [''RSI oversold'']\<rparr>"
  by (simp add: rule_steps oversold_row_flags)

lemma client_fixture_simps:
  "df (dashboard_client r) = frame50 r" "data_queue (dashboard_client r) = Some []"
  "df (standalone_client r) = frame50 r" "data_queue (standalone_client r) = None"
  by (simp_all add: dashboard_client_def standalone_client_def client_init_def)

text \<open>
  C7. The claim is that with at least 50 bars a Signal is emitted whenever a rule sets a
  direction. On the standalone client, whose \<open>data_queue\<close> is \<open>None\<close>, a frame of 50
  bars with an oversold last bar sets the long flag, and \<open>generate_trading_signals\<close>
  raises AttributeError at the \<open>put\<close>: nothing reaches a queue or the log, and the
  caller's \<open>try\<close> block ends with that exception. The same frame on a client with a
  queue emits the Signal. (With fewer than 50 bars nothing is emitted, and with a queue
  a Signal is emitted exactly when a flag is set: \<open>generate_trading_signals_short_frame\<close>
  and \<open>generate_trading_signals_queue\<close>.)
\<close>

theorem C7_signal_lost_without_queue:
  "length (df (standalone_client oversold_row)) = 50 \<and>
   data_queue (standalone_client oversold_row) = None \<and>
   long_signal (evaluate_rules (df (standalone_client oversold_row))) \<and>
   generate_trading_signals (standalone_client oversold_row) = Inl AttributeError \<and>
   publish (standalone_client oversold_row) =
     (Some AttributeError, standalone_client oversold_row) \<and>
   generate_trading_signals (dashboard_client oversold_row) =
     Inr ((dashboard_client oversold_row)
            \<lparr>data_queue := Some [SignalData (signal_data oversold_row
                (evaluate_rules (frame50 oversold_row)))]\<rparr>)"
  by (simp add: generate_trading_signals_def publish_def Let_def client_fixture_simps
      frame50_simps oversold_row_rules)

lemma signal_data_levels:
  "price (signal_data l v) = close l \<and>
   (long_signal v \<longrightarrow> sig_type (signal_data l v) = ''long'') \<and>
   (sig_type (signal_data l v) = ''long'' \<longrightarrow>
      stop_loss (signal_data l v) = fmul (close l) (Num (98 / 100)) \<and>
      take_profit (signal_data l v) = fmul (close l) (Num (103 / 100))) \<and>
   (sig_type (signal_data l v) = ''short'' \<longrightarrow>
      stop_loss (signal_data l v) = fmul (close l) (Num (102 / 100)) \<and>
      take_profit (signal_data l v) = fmul (close l) (Num (97 / 100))) \<and>
   (sig_type (signal_data l v) = ''long'' \<or> sig_type (signal_data l v) = ''short'')"
  by (simp add: signal_data_def)

lemma emitted_signal:
  assumes "generate_trading_signals s = Inr s'" "data_queue s = Some q"
    "data_queue s' = Some (q @ [SignalData g])"
  shows "g = signal_data (last (df s)) (evaluate_rules (df s))"
proof (cases "length (df s) < 50")
  case True
  then have "s' = s"
    using assms(1) by (simp add: generate_trading_signals_short_frame)
  with assms(2,3) show ?thesis by simp
next
  case False
  then show ?thesis
    using assms generate_trading_signals_queue [of s q]
    by (auto split: if_splits)
qed

text \<open>
  C8. Let \<open>generate_trading_signals\<close> emit the Signal \<open>g\<close>, that is, extend the queue
  by it. Then the price of \<open>g\<close> is the latest close; if the rules set both the long and
  the short flag, \<open>g\<close> is long; a long \<open>g\<close> has stop loss \<open>price \<times> 0.98\<close> and take
  profit \<open>price \<times> 1.03\<close>, a short one \<open>price \<times> 1.02\<close> and \<open>price \<times> 0.97\<close>; and \<open>g\<close>
  is one or the other.
\<close>

theorem C8_signal_levels:
  "generate_trading_signals s = Inr s' \<and> data_queue s = Some q \<and>
   data_queue s' = Some (q @ [SignalData g]) \<longrightarrow>
     price g = close (last (df s)) \<and>
     (long_signal (evaluate_rules (df s)) \<and> short_signal (evaluate_rules (df s)) \<longrightarrow>
        sig_type g = ''long'') \<and>
     (sig_type g = ''long'' \<longrightarrow>
        stop_loss g = fmul (price g) (Num (98 / 100)) \<and>
        take_profit g = fmul (price g) (Num (103 / 100))) \<and>
     (sig_type g = ''short'' \<longrightarrow>
        stop_loss g = fmul (price g) (Num (102 / 100)) \<and>
        take_profit g = fmul (price g) (Num (97 / 100))) \<and>
     (sig_type g = ''long'' \<or> sig_type g = ''short'')"
proof
  assume h: "generate_trading_signals s = Inr s' \<and> data_queue s = Some q \<and>
    data_queue s' = Some (q @ [SignalData g])"
  then have g: "g = signal_data (last (df s)) (evaluate_rules (df s))"
    using emitted_signal by blast
  show "price g = close (last (df s)) \<and>
     (long_signal (evaluate_rules (df s)) \<and> short_signal (evaluate_rules (df s)) \<longrightarrow>
        sig_type g = ''long'') \<and>
     (sig_type g = ''long'' \<longrightarrow>
        stop_loss g = fmul (price g) (Num (98 / 100)) \<and>
        take_profit g = fmul (price g) (Num (103 / 100))) \<and>
     (sig_type g = ''short'' \<longrightarrow>
        stop_loss g = fmul (price g) (Num (102 / 100)) \<and>
        take_profit g = fmul (price g) (Num (97 / 100))) \<and>
     (sig_type g = ''long'' \<or> sig_type g = ''short'')"
    unfolding g using signal_data_levels [of "last (df s)" "evaluate_rules (df s)"]
    by simp
qed

lemma fixture_close:
  "close both_row = Num 90" "close overbought_row = Num 100" "close vwap_cross_row = Num 110"
  by (simp_all add: both_row_def overbought_row_def vwap_cross_row_def flat_row_def)

lemma both_emitted:
  "generate_trading_signals (dashboard_client both_row) =
     Inr ((dashboard_client both_row)\<lparr>data_queue := Some ([] @ [SignalData both_signal])\<rparr>)"
  by (simp add: generate_trading_signals_def Let_def client_fixture_simps frame50_simps
      both_row_rules signal_data_def both_signal_def fixture_close)

lemma overbought_emitted:
  "generate_trading_signals (dashboard_client overbought_row) =
     Inr ((dashboard_client overbought_row)
            \<lparr>data_queue := Some ([] @ [SignalData overbought_signal])\<rparr>)"
  by (simp add: generate_trading_signals_def Let_def client_fixture_simps frame50_simps
      overbought_row_rules signal_data_def overbought_signal_def fixture_close)

text \<open>The witness: a tick that is oversold and crosses below VWAP sets both flags and
  emits a long Signal with levels 88.2 and 92.7 on the price 90; an overbought tick
  emits a short Signal with levels 102 and 97 on the price 100.\<close>

theorem C8_signal_levels_witness:
  "generate_trading_signals (dashboard_client both_row) =
     Inr ((dashboard_client both_row)\<lparr>data_queue := Some ([] @ [SignalData both_signal])\<rparr>) \<and>
   long_signal (evaluate_rules (df (dashboard_client both_row))) \<and>
   short_signal (evaluate_rules (df (dashboard_client both_row))) \<and>
   sig_type both_signal = ''long'' \<and>
   price both_signal = Num 90 \<and>
   stop_loss both_signal = fmul (Num 90) (Num (98 / 100)) \<and>
   take_profit both_signal = fmul (Num 90) (Num (103 / 100)) \<and>
   generate_trading_signals (dashboard_client overbought_row) =
     Inr ((dashboard_client overbought_row)
            \<lparr>data_queue := Some ([] @ [SignalData overbought_signal])\<rparr>) \<and>
   sig_type overbought_signal = ''short'' \<and>
   stop_loss overbought_signal = fmul (Num 100) (Num (102 / 100)) \<and>
   take_profit overbought_signal = fmul (Num 100) (Num (97 / 100))"
proof -
  have f: "long_signal (evaluate_rules (df (dashboard_client both_row))) \<and>
      short_signal (evaluate_rules (df (dashboard_client both_row)))"
    by (simp add: client_fixture_simps both_row_rules)
  have t: "sig_type overbought_signal = ''short'' \<and> price overbought_signal = Num 100 \<and>
      price both_signal = Num 90"
    by (simp add: overbought_signal_def both_signal_def)
  have a: "sig_type both_signal = ''long'' \<and>
      stop_loss both_signal = fmul (price both_signal) (Num (98 / 100)) \<and>
      take_profit both_signal = fmul (price both_signal) (Num (103 / 100))"
    using f both_emitted
      C8_signal_levels [of "dashboard_client both_row"
        "(dashboard_client both_row)\<lparr>data_queue := Some ([] @ [SignalData both_signal])\<rparr>"
        "[]" both_signal]
    by (simp add: client_fixture_simps)
  have b: "stop_loss overbought_signal = fmul (price overbought_signal) (Num (102 / 100)) \<and>
      take_profit overbought_signal = fmul (price overbought_signal) (Num (97 / 100))"
    using t overbought_emitted
      C8_signal_levels [of "dashboard_client overbought_row"
        "(dashboard_client overbought_row)
           \<lparr>data_queue := Some ([] @ [SignalData overbought_signal])\<rparr>"
        "[]" overbought_signal]
    by (simp add: client_fixture_simps)
  show ?thesis
    using f t a b both_emitted overbought_emitted by simp
qed

lemma vwap_only_rules:
  assumes "\<not> rsi_long l" "\<not> rsi_short l" "\<not> sma_long l p" "\<not> sma_short l p"
    "\<not> macd_long l p" "\<not> macd_short l p" "l = last rows" "p = rows ! (length rows - 2)"
  shows "evaluate_rules rows = vwap_rule l p rule_vars_init"
  using assms
  by (simp add: evaluate_rules_def Let_def rsi_rule_def sma_rule_def macd_rule_def
      volume_rule_def rule_vars_init_def)

lemma vwap_rule_alone:
  "vwap_long l p \<or> vwap_short l p \<Longrightarrow>
   (long_signal (vwap_rule l p rule_vars_init) \<or> short_signal (vwap_rule l p rule_vars_init)) \<and>
   signal_strength (vwap_rule l p rule_vars_init) = 1 / 2 \<and>
   signal_reasons (vwap_rule l p rule_vars_init) =
     [if vwap_long l p then ''Price crossed above VWAP'' else ''Price crossed below VWAP'']"
  by (auto simp: vwap_rule_def bullish_def bearish_def rule_vars_init_def)

text \<open>
  C10. On a frame of at least 50 bars with a queue, when neither the RSI rule nor the SMA
  rule nor the MACD rule fires and the VWAP rule does, the emitted Signal has strength
  exactly 0.5 and the VWAP reason as its only reason, whatever the volume: the volume
  rule runs before the VWAP rule, when no direction is set yet.
\<close>

theorem C10_vwap_only_strength:
  "50 \<le> length (df s) \<and> data_queue s = Some q \<and>
   l = last (df s) \<and> p = df s ! (length (df s) - 2) \<and>
   \<not> rsi_long l \<and> \<not> rsi_short l \<and> \<not> sma_long l p \<and> \<not> sma_short l p \<and>
   \<not> macd_long l p \<and> \<not> macd_short l p \<and> (vwap_long l p \<or> vwap_short l p) \<longrightarrow>
     generate_trading_signals s =
       Inr (s\<lparr>data_queue :=
                Some (q @ [SignalData (signal_data l (evaluate_rules (df s)))])\<rparr>) \<and>
     strength (signal_data l (evaluate_rules (df s))) = 1 / 2 \<and>
     reasons (signal_data l (evaluate_rules (df s))) =
       [if vwap_long l p then ''Price crossed above VWAP'' else ''Price crossed below VWAP'']"
proof
  assume h: "50 \<le> length (df s) \<and> data_queue s = Some q \<and>
   l = last (df s) \<and> p = df s ! (length (df s) - 2) \<and>
   \<not> rsi_long l \<and> \<not> rsi_short l \<and> \<not> sma_long l p \<and> \<not> sma_short l p \<and>
   \<not> macd_long l p \<and> \<not> macd_short l p \<and> (vwap_long l p \<or> vwap_short l p)"
  then have e: "evaluate_rules (df s) = vwap_rule l p rule_vars_init"
    using vwap_only_rules [of l p "df s"] by blast
  have v: "(long_signal (vwap_rule l p rule_vars_init) \<or>
       short_signal (vwap_rule l p rule_vars_init)) \<and>
     signal_strength (vwap_rule l p rule_vars_init) = 1 / 2 \<and>
     signal_reasons (vwap_rule l p rule_vars_init) =
       [if vwap_long l p then ''Price crossed above VWAP'' else ''Price crossed below VWAP'']"
    using h vwap_rule_alone [of l p] by blast
  have g: "generate_trading_signals s =
       Inr (s\<lparr>data_queue :=
                Some (q @ [SignalData (signal_data l (evaluate_rules (df s)))])\<rparr>)"
    using h v generate_trading_signals_queue [of s q] by (simp add: e)
  show "generate_trading_signals s =
       Inr (s\<lparr>data_queue :=
                Some (q @ [SignalData (signal_data l (evaluate_rules (df s)))])\<rparr>) \<and>
     strength (signal_data l (evaluate_rules (df s))) = 1 / 2 \<and>
     reasons (signal_data l (evaluate_rules (df s))) =
       [if vwap_long l p then ''Price crossed above VWAP'' else ''Price crossed below VWAP'']"
    using g v by (simp add: e signal_data_def)
qed

text \<open>The witness: a bullish VWAP cross whose volume, 50, is above the 20-bar mean, 12.\<close>

theorem C10_vwap_only_strength_witness:
  "50 \<le> length (df (dashboard_client vwap_cross_row)) \<and>
   data_queue (dashboard_client vwap_cross_row) = Some [] \<and>
   last (df (dashboard_client vwap_cross_row)) = vwap_cross_row \<and>
   df (dashboard_client vwap_cross_row) ! (length (df (dashboard_client vwap_cross_row)) - 2) =
     flat_row \<and>
   \<not> rsi_long vwap_cross_row \<and> \<not> rsi_short vwap_cross_row \<and>
   \<not> sma_long vwap_cross_row flat_row \<and> \<not> sma_short vwap_cross_row flat_row \<and>
   \<not> macd_long vwap_cross_row flat_row \<and> \<not> macd_short vwap_cross_row flat_row \<and>
   vwap_long vwap_cross_row flat_row \<and>
   high_volume (df (dashboard_client vwap_cross_row)) \<and>
   generate_trading_signals (dashboard_client vwap_cross_row) =
     Inr ((dashboard_client vwap_cross_row)
            \<lparr>data_queue := Some [SignalData vwap_cross_signal]\<rparr>) \<and>
   strength vwap_cross_signal = 1 / 2"
proof -
  have h: "50 \<le> length (df (dashboard_client vwap_cross_row)) \<and>
     data_queue (dashboard_client vwap_cross_row) = Some [] \<and>
     vwap_cross_row = last (df (dashboard_client vwap_cross_row)) \<and>
     flat_row = df (dashboard_client vwap_cross_row) !
       (length (df (dashboard_client vwap_cross_row)) - 2)"
    by (simp add: client_fixture_simps frame50_simps)
  have f: "\<not> rsi_long vwap_cross_row \<and> \<not> rsi_short vwap_cross_row \<and>
     \<not> sma_long vwap_cross_row flat_row \<and> \<not> sma_short vwap_cross_row flat_row \<and>
     \<not> macd_long vwap_cross_row flat_row \<and> \<not> macd_short vwap_cross_row flat_row \<and>
     (vwap_long vwap_cross_row flat_row \<or> vwap_short vwap_cross_row flat_row)"
    by (simp add: vwap_cross_row_flags)
  have hv: "high_volume (df (dashboard_client vwap_cross_row)) \<and>
      vwap_long vwap_cross_row flat_row"
    by (simp add: client_fixture_simps vwap_cross_row_flags)
  note c = C10_vwap_only_strength [of "dashboard_client vwap_cross_row" "[]" vwap_cross_row
      flat_row]
  have r: "generate_trading_signals (dashboard_client vwap_cross_row) =
       Inr ((dashboard_client vwap_cross_row)\<lparr>data_queue :=
                Some ([] @ [SignalData (signal_data vwap_cross_row
                  (evaluate_rules (df (dashboard_client vwap_cross_row))))])\<rparr>) \<and>
     strength (signal_data vwap_cross_row
        (evaluate_rules (df (dashboard_client vwap_cross_row)))) = 1 / 2 \<and>
     reasons (signal_data vwap_cross_row
        (evaluate_rules (df (dashboard_client vwap_cross_row)))) =
       [if vwap_long vwap_cross_row flat_row then ''Price crossed above VWAP''
        else ''Price crossed below VWAP'']"
    using c h f by blast
  have l: "long_signal (evaluate_rules (df (dashboard_client vwap_cross_row)))"
    using vwap_only_rules [of vwap_cross_row flat_row "df (dashboard_client vwap_cross_row)"]
      h f hv
    by (simp add: vwap_rule_def bullish_def)
  have "signal_data vwap_cross_row (evaluate_rules (df (dashboard_client vwap_cross_row))) =
      vwap_cross_signal"
    using r l hv by (simp add: signal_data_def vwap_cross_signal_def fixture_close)
  then show ?thesis
    using r h f hv by (simp add: vwap_cross_signal_def)
qed

section \<open>A failing indicator computation\<close>

lemma publish_failure:
  "fst (publish s) = Some e \<Longrightarrow>
   data_queue (snd (publish s)) = data_queue s \<and> error_log (snd (publish s)) = error_log s"
  by (auto simp: publish_def generate_trading_signals_def Let_def
      split: option.splits sum.splits if_splits)

lemma publish_error_log: "error_log (snd (publish s)) = error_log s"
  by (auto simp: publish_def generate_trading_signals_def Let_def
      split: option.splits sum.splits if_splits)

lemma try_error_log:
  "error_log (snd (calculate_indicators_try lib s)) = error_log s"
  unfolding calculate_indicators_try_def try_call_def Let_def
  by (simp add: assign_simps publish_error_log split: sum.splits)

lemma try_failure_queue:
  "fst (calculate_indicators_try lib s) = Some e \<Longrightarrow>
   data_queue (snd (calculate_indicators_try lib s)) = data_queue s"
  unfolding calculate_indicators_try_def try_call_def Let_def
  by (auto simp: assign_simps split: sum.splits dest: publish_failure)

lemma calculate_indicators_failure:
  assumes "fst (calculate_indicators_try lib s) = Some e"
  shows "calculate_indicators lib s =
           (snd (calculate_indicators_try lib s))\<lparr>error_log := error_log s @ [e]\<rparr>"
  using assms try_error_log [of lib s]
  by (cases "calculate_indicators_try lib s") (simp add: calculate_indicators_def)

lemma one_row_column: "set_column upd [v] [r] = [upd v r]"
  by (simp add: set_column_def)

lemma vwap_raises_eval:
  "calculate_indicators_try (ta_fixture True) published_client =
     (Some DataError, published_client\<lparr>df := [flat_row]\<rparr>)"
  unfolding calculate_indicators_try_def try_call_def Let_def
  by (simp add: ta_fixture_def published_client_def client_init_def assign_def one_row_column
      oversold_row_def flat_row_def)

lemma published_client_simps:
  "df published_client = [oversold_row]"
  "data_queue published_client = Some [DataFrame [oversold_row]]"
  "error_log published_client = []"
  by (simp_all add: published_client_def client_init_def)

lemma publish_raises:
  "generate_trading_signals s = Inl e \<Longrightarrow> publish s = (Some e, s)"
  by (auto simp: publish_def generate_trading_signals_def Let_def
      split: option.splits if_splits)

lemma calculate_indicators_publish_raises:
  assumes "generate_trading_signals s9 = Inl e" "error_log s9 = error_log s"
  shows "(case publish s9 of (None, s') \<Rightarrow> s'
          | (Some e, s') \<Rightarrow> s'\<lparr>error_log := error_log s' @ [e]\<rparr>) =
         s9\<lparr>error_log := error_log s @ [e]\<rparr>"
  using publish_raises [OF assms(1)] assms(2) by simp

lemma long_signal_kept:
  "long_signal v \<Longrightarrow> long_signal (sma_rule l p v)"
  "long_signal v \<Longrightarrow> long_signal (macd_rule l p v)"
  "long_signal v \<Longrightarrow> long_signal (volume_rule rows v)"
  "long_signal v \<Longrightarrow> long_signal (vwap_rule l p v)"
  by (simp_all add: sma_rule_def macd_rule_def volume_rule_def vwap_rule_def bullish_def
      bearish_def)

lemma rsi_long_sets_flag: "rsi_long (last rows) \<Longrightarrow> long_signal (evaluate_rules rows)"
proof -
  assume "rsi_long (last rows)"
  then have "long_signal (rsi_rule (last rows) rule_vars_init)"
    by (simp add: rsi_rule_def bullish_def)
  then show ?thesis
    unfolding evaluate_rules_def Let_def by (intro long_signal_kept)
qed

lemma rsi_set_column:
  "length vals = length rows \<Longrightarrow> map rsi (set_column (\<lambda>x r. r\<lparr>rsi := x\<rparr>) vals rows) = vals"
  by (rule nth_equalityI) (simp_all add: set_column_def nth_enumerate_eq)

text \<open>
  C4 as stated fails. The published frame has one row with RSI 20. On the next
  computation the RSI, SMA and MACD columns are assigned before the VWAP constructor
  raises: the exception is caught, and the frame is left with the new RSI, 50, beside
  the old VWAP column. The columns are partially updated.
\<close>

theorem C4_failure_not_rolled_back_counterexample:
  "fst (calculate_indicators_try (ta_fixture True) published_client) = Some DataError \<and>
   data_queue published_client = Some [DataFrame (df published_client)] \<and>
   map rsi (df published_client) = [Num 20] \<and>
   map rsi (df (calculate_indicators (ta_fixture True) published_client)) = [Num 50] \<and>
   map vwap (df (calculate_indicators (ta_fixture True) published_client)) =
     map vwap (df published_client)"
  by (simp add: calculate_indicators_def vwap_raises_eval)
     (simp add: published_client_def client_init_def oversold_row_def flat_row_def)

text \<open>
  C4, amended. When the \<open>try\<close> block of \<open>calculate_indicators\<close> ends with an
  exception, the exception is caught and logged and the function returns; nothing is put
  on the queue on that tick, and the frame keeps its rows and their open times. What the
  block did before the failing call is not undone. For each call that can raise, in the
  order of the block, the second part gives the state that \<open>calculate_indicators\<close>
  returns when the calls before it returned and it raises \<open>e\<close>: the frame is the
  forward-filled frame \<open>f0\<close> with exactly the columns assigned so far (\<open>f1\<close> after the
  RSI column, up to \<open>f7\<close> after the VWAP column, \<open>f8\<close> after the zero fill), and \<open>e\<close>
  is added to the log. The last case is the exception of \<open>generate_trading_signals\<close>.
\<close>

theorem C4_failure_not_rolled_back:
  "(fst (calculate_indicators_try lib s) = Some e \<longrightarrow>
      error_log (calculate_indicators lib s) = error_log s @ [e] \<and>
      data_queue (calculate_indicators lib s) = data_queue s \<and>
      length (df (calculate_indicators lib s)) = length (df s) \<and>
      map timestamp (df (calculate_indicators lib s)) = map timestamp (df s)) \<and>
   (let f0 = ffill (df s);
        cl = map close f0;
        f1 = set_column (\<lambda>x r. r\<lparr>rsi := x\<rparr>) rsi_col f0;
        f2 = set_column (\<lambda>x r. r\<lparr>sma_20 := x\<rparr>) sma_col_a f1;
        f3 = set_column (\<lambda>x r. r\<lparr>sma_50 := x\<rparr>) sma_col_b f2;
        f4 = set_column (\<lambda>x r. r\<lparr>macd := x\<rparr>) macd_col f3;
        f5 = set_column (\<lambda>x r. r\<lparr>macd_signal := x\<rparr>) signal_col f4;
        f6 = set_column (\<lambda>x r. r\<lparr>macd_diff := x\<rparr>) diff_col f5;
        f7 = set_column (\<lambda>x r. r\<lparr>vwap := x\<rparr>) vwap_col f6;
        f8 = map fillna0_row f7;
        raised = (\<lambda>f. calculate_indicators lib s =
                         s\<lparr>df := f, error_log := error_log s @ [e]\<rparr>)
    in (RSIIndicator lib cl = Inl e \<longrightarrow> raised f0) \<and>
       (RSIIndicator lib cl = Inr rsi_obj \<longrightarrow>
       (rsi_method lib rsi_obj = Inl e \<longrightarrow> raised f0) \<and>
       (rsi_method lib rsi_obj = Inr rsi_col \<longrightarrow>
       (SMAIndicator lib cl 20 = Inl e \<longrightarrow> raised f1) \<and>
       (SMAIndicator lib cl 20 = Inr sma_obj_a \<longrightarrow>
       (SMAIndicator lib cl 50 = Inl e \<longrightarrow> raised f1) \<and>
       (SMAIndicator lib cl 50 = Inr sma_obj_b \<longrightarrow>
       (sma_indicator lib sma_obj_a = Inl e \<longrightarrow> raised f1) \<and>
       (sma_indicator lib sma_obj_a = Inr sma_col_a \<longrightarrow>
       (sma_indicator lib sma_obj_b = Inl e \<longrightarrow> raised f2) \<and>
       (sma_indicator lib sma_obj_b = Inr sma_col_b \<longrightarrow>
       (MACD lib cl = Inl e \<longrightarrow> raised f3) \<and>
       (MACD lib cl = Inr macd_obj \<longrightarrow>
       (macd_method lib macd_obj = Inl e \<longrightarrow> raised f3) \<and>
       (macd_method lib macd_obj = Inr macd_col \<longrightarrow>
       (macd_signal_method lib macd_obj = Inl e \<longrightarrow> raised f4) \<and>
       (macd_signal_method lib macd_obj = Inr signal_col \<longrightarrow>
       (macd_diff_method lib macd_obj = Inl e \<longrightarrow> raised f5) \<and>
       (macd_diff_method lib macd_obj = Inr diff_col \<longrightarrow>
       (VolumeWeightedAveragePrice lib (map high f0) (map low f0) cl (map volume f0) = Inl e
          \<longrightarrow> raised f6) \<and>
       (VolumeWeightedAveragePrice lib (map high f0) (map low f0) cl (map volume f0) = Inr vwap_obj
          \<longrightarrow>
       (volume_weighted_average_price lib vwap_obj = Inl e \<longrightarrow> raised f6) \<and>
       (volume_weighted_average_price lib vwap_obj = Inr vwap_col \<longrightarrow>
       (generate_trading_signals (s\<lparr>df := f8\<rparr>) = Inl e \<longrightarrow> raised f8))))))))))))))"
proof -
  have a: "error_log (calculate_indicators lib s) = error_log s @ [e] \<and>
      data_queue (calculate_indicators lib s) = data_queue s \<and>
      length (df (calculate_indicators lib s)) = length (df s) \<and>
      map timestamp (df (calculate_indicators lib s)) = map timestamp (df s)"
    if h: "fst (calculate_indicators_try lib s) = Some e"
    using calculate_indicators_failure [OF h] try_failure_queue [OF h]
      calculate_indicators_frame [of lib s]
    by simp
  have b: "?thesis \<longleftrightarrow> (fst (calculate_indicators_try lib s) = Some e \<longrightarrow>
      error_log (calculate_indicators lib s) = error_log s @ [e] \<and>
      data_queue (calculate_indicators lib s) = data_queue s \<and>
      length (df (calculate_indicators lib s)) = length (df s) \<and>
      map timestamp (df (calculate_indicators lib s)) = map timestamp (df s))"
    unfolding Let_def calculate_indicators_def calculate_indicators_try_def try_call_def
    by (simp add: assign_def map_set_column calculate_indicators_publish_raises)
  show ?thesis
    unfolding b using a by blast
qed

text \<open>The witness: the published client with the library whose VWAP constructor
  raises; the same client with each of the twelve library calls raising in turn, which
  leaves the frame with 0, 0, 1, 1, 1, 2, 3, 3, 4, 5, 6 and 6 columns assigned; and the
  client without a queue on a frame of 50 rows, where every library call returns, the
  new RSI of 25 sets the long flag and \<open>put\<close> raises.\<close>

theorem C4_failure_not_rolled_back_witness:
  "fst (calculate_indicators_try (ta_fixture True) published_client) = Some DataError \<and>
   error_log (calculate_indicators (ta_fixture True) published_client) = [DataError] \<and>
   data_queue (calculate_indicators (ta_fixture True) published_client) =
     Some [DataFrame [oversold_row]] \<and>
   length (df (calculate_indicators (ta_fixture True) published_client)) = 1 \<and>
   calculate_indicators (ta_raising 0) published_client =
     published_client\<lparr>df := [staged 0], error_log := [DataError]\<rparr> \<and>
   calculate_indicators (ta_raising 1) published_client =
     published_client\<lparr>df := [staged 0], error_log := [DataError]\<rparr> \<and>
   calculate_indicators (ta_raising 2) published_client =
     published_client\<lparr>df := [staged 1], error_log := [DataError]\<rparr> \<and>
   calculate_indicators (ta_raising 3) published_client =
     published_client\<lparr>df := [staged 1], error_log := [DataError]\<rparr> \<and>
   calculate_indicators (ta_raising 4) published_client =
     published_client\<lparr>df := [staged 1], error_log := [DataError]\<rparr> \<and>
   calculate_indicators (ta_raising 5) published_client =
     published_client\<lparr>df := [staged 2], error_log := [DataError]\<rparr> \<and>
   calculate_indicators (ta_raising 6) published_client =
     published_client\<lparr>df := [staged 3], error_log := [DataError]\<rparr> \<and>
   calculate_indicators (ta_raising 7) published_client =
     published_client\<lparr>df := [staged 3], error_log := [DataError]\<rparr> \<and>
   calculate_indicators (ta_raising 8) published_client =
     published_client\<lparr>df := [staged 4], error_log := [DataError]\<rparr> \<and>
   calculate_indicators (ta_raising 9) published_client =
     published_client\<lparr>df := [staged 5], error_log := [DataError]\<rparr> \<and>
   calculate_indicators (ta_raising 10) published_client =
     published_client\<lparr>df := [staged 6], error_log := [DataError]\<rparr> \<and>
   calculate_indicators (ta_raising 11) published_client =
     published_client\<lparr>df := [staged 6], error_log := [DataError]\<rparr> \<and>
   data_queue (standalone_client oversold_row) = None \<and>
   error_log (calculate_indicators (ta_raising 12) (standalone_client oversold_row)) =
     [AttributeError] \<and>
   map rsi (df (calculate_indicators (ta_raising 12) (standalone_client oversold_row))) =
     replicate 50 (Num 25)"
proof -
  have h: "fst (calculate_indicators_try (ta_fixture True) published_client) = Some DataError"
    by (simp add: vwap_raises_eval)
  have a: "error_log (calculate_indicators (ta_fixture True) published_client) =
      error_log published_client @ [DataError] \<and>
    data_queue (calculate_indicators (ta_fixture True) published_client) =
      data_queue published_client \<and>
    length (df (calculate_indicators (ta_fixture True) published_client)) =
      length (df published_client)"
    using h
      C4_failure_not_rolled_back [where lib = "ta_fixture True" and s = published_client
        and e = DataError, THEN conjunct1]
    by blast
  have r0: "calculate_indicators (ta_raising 0) published_client =
     published_client\<lparr>df := [staged 0], error_log := [DataError]\<rparr>"
    using C4_failure_not_rolled_back [where lib = "ta_raising 0" and s = published_client and e = DataError and rsi_obj = "[Num 100]"
        and rsi_col = "[Num 25]" and sma_obj_a = "([Num 100], 20)" and sma_obj_b = "([Num 100], 50)"
        and sma_col_a = "[Num 20]" and sma_col_b = "[Num 50]" and macd_obj = "[Num 100]" and macd_col = "[Num 1]"
        and signal_col = "[Num 2]" and diff_col = "[Num (- 1)]" and vwap_obj = "[Num 100]" and vwap_col = "[Num 99]",
        THEN conjunct2]
    by (simp add: Let_def ta_raising_def published_client_simps one_row_column staged_def
        oversold_row_def flat_row_def)
  have r1: "calculate_indicators (ta_raising 1) published_client =
     published_client\<lparr>df := [staged 0], error_log := [DataError]\<rparr>"
    using C4_failure_not_rolled_back [where lib = "ta_raising 1" and s = published_client and e = DataError and rsi_obj = "[Num 100]"
        and rsi_col = "[Num 25]" and sma_obj_a = "([Num 100], 20)" and sma_obj_b = "([Num 100], 50)"
        and sma_col_a = "[Num 20]" and sma_col_b = "[Num 50]" and macd_obj = "[Num 100]" and macd_col = "[Num 1]"
        and signal_col = "[Num 2]" and diff_col = "[Num (- 1)]" and vwap_obj = "[Num 100]" and vwap_col = "[Num 99]",
        THEN conjunct2]
    by (simp add: Let_def ta_raising_def published_client_simps one_row_column staged_def
        oversold_row_def flat_row_def)
  have r2: "calculate_indicators (ta_raising 2) published_client =
     published_client\<lparr>df := [staged 1], error_log := [DataError]\<rparr>"
    using C4_failure_not_rolled_back [where lib = "ta_raising 2" and s = published_client and e = DataError and rsi_obj = "[Num 100]"
        and rsi_col = "[Num 25]" and sma_obj_a = "([Num 100], 20)" and sma_obj_b = "([Num 100], 50)"
        and sma_col_a = "[Num 20]" and sma_col_b = "[Num 50]" and macd_obj = "[Num 100]" and macd_col = "[Num 1]"
        and signal_col = "[Num 2]" and diff_col = "[Num (- 1)]" and vwap_obj = "[Num 100]" and vwap_col = "[Num 99]",
        THEN conjunct2]
    by (simp add: Let_def ta_raising_def published_client_simps one_row_column staged_def
        oversold_row_def flat_row_def)
  have r3: "calculate_indicators (ta_raising 3) published_client =
     published_client\<lparr>df := [staged 1], error_log := [DataError]\<rparr>"
    using C4_failure_not_rolled_back [where lib = "ta_raising 3" and s = published_client and e = DataError and rsi_obj = "[Num 100]"
        and rsi_col = "[Num 25]" and sma_obj_a = "([Num 100], 20)" and sma_obj_b = "([Num 100], 50)"
        and sma_col_a = "[Num 20]" and sma_col_b = "[Num 50]" and macd_obj = "[Num 100]" and macd_col = "[Num 1]"
        and signal_col = "[Num 2]" and diff_col = "[Num (- 1)]" and vwap_obj = "[Num 100]" and vwap_col = "[Num 99]",
        THEN conjunct2]
    by (simp add: Let_def ta_raising_def published_client_simps one_row_column staged_def
        oversold_row_def flat_row_def)
  have r4: "calculate_indicators (ta_raising 4) published_client =
     published_client\<lparr>df := [staged 1], error_log := [DataError]\<rparr>"
    using C4_failure_not_rolled_back [where lib = "ta_raising 4" and s = published_client and e = DataError and rsi_obj = "[Num 100]"
        and rsi_col = "[Num 25]" and sma_obj_a = "([Num 100], 20)" and sma_obj_b = "([Num 100], 50)"
        and sma_col_a = "[Num 20]" and sma_col_b = "[Num 50]" and macd_obj = "[Num 100]" and macd_col = "[Num 1]"
        and signal_col = "[Num 2]" and diff_col = "[Num (- 1)]" and vwap_obj = "[Num 100]" and vwap_col = "[Num 99]",
        THEN conjunct2]
    by (simp add: Let_def ta_raising_def published_client_simps one_row_column staged_def
        oversold_row_def flat_row_def)
  have r5: "calculate_indicators (ta_raising 5) published_client =
     published_client\<lparr>df := [staged 2], error_log := [DataError]\<rparr>"
    using C4_failure_not_rolled_back [where lib = "ta_raising 5" and s = published_client and e = DataError and rsi_obj = "[Num 100]"
        and rsi_col = "[Num 25]" and sma_obj_a = "([Num 100], 20)" and sma_obj_b = "([Num 100], 50)"
        and sma_col_a = "[Num 20]" and sma_col_b = "[Num 50]" and macd_obj = "[Num 100]" and macd_col = "[Num 1]"
        and signal_col = "[Num 2]" and diff_col = "[Num (- 1)]" and vwap_obj = "[Num 100]" and vwap_col = "[Num 99]",
        THEN conjunct2]
    by (simp add: Let_def ta_raising_def published_client_simps one_row_column staged_def
        oversold_row_def flat_row_def)
  have r6: "calculate_indicators (ta_raising 6) published_client =
     published_client\<lparr>df := [staged 3], error_log := [DataError]\<rparr>"
    using C4_failure_not_rolled_back [where lib = "ta_raising 6" and s = published_client and e = DataError and rsi_obj = "[Num 100]"
        and rsi_col = "[Num 25]" and sma_obj_a = "([Num 100], 20)" and sma_obj_b = "([Num 100], 50)"
        and sma_col_a = "[Num 20]" and sma_col_b = "[Num 50]" and macd_obj = "[Num 100]" and macd_col = "[Num 1]"
        and signal_col = "[Num 2]" and diff_col = "[Num (- 1)]" and vwap_obj = "[Num 100]" and vwap_col = "[Num 99]",
        THEN conjunct2]
    by (simp add: Let_def ta_raising_def published_client_simps one_row_column staged_def
        oversold_row_def flat_row_def)
  have r7: "calculate_indicators (ta_raising 7) published_client =
     published_client\<lparr>df := [staged 3], error_log := [DataError]\<rparr>"
    using C4_failure_not_rolled_back [where lib = "ta_raising 7" and s = published_client and e = DataError and rsi_obj = "[Num 100]"
        and rsi_col = "[Num 25]" and sma_obj_a = "([Num 100], 20)" and sma_obj_b = "([Num 100], 50)"
        and sma_col_a = "[Num 20]" and sma_col_b = "[Num 50]" and macd_obj = "[Num 100]" and macd_col = "[Num 1]"
        and signal_col = "[Num 2]" and diff_col = "[Num (- 1)]" and vwap_obj = "[Num 100]" and vwap_col = "[Num 99]",
        THEN conjunct2]
    by (simp add: Let_def ta_raising_def published_client_simps one_row_column staged_def
        oversold_row_def flat_row_def)
  have r8: "calculate_indicators (ta_raising 8) published_client =
     published_client\<lparr>df := [staged 4], error_log := [DataError]\<rparr>"
    using C4_failure_not_rolled_back [where lib = "ta_raising 8" and s = published_client and e = DataError and rsi_obj = "[Num 100]"
        and rsi_col = "[Num 25]" and sma_obj_a = "([Num 100], 20)" and sma_obj_b = "([Num 100], 50)"
        and sma_col_a = "[Num 20]" and sma_col_b = "[Num 50]" and macd_obj = "[Num 100]" and macd_col = "[Num 1]"
        and signal_col = "[Num 2]" and diff_col = "[Num (- 1)]" and vwap_obj = "[Num 100]" and vwap_col = "[Num 99]",
        THEN conjunct2]
    by (simp add: Let_def ta_raising_def published_client_simps one_row_column staged_def
        oversold_row_def flat_row_def)
  have r9: "calculate_indicators (ta_raising 9) published_client =
     published_client\<lparr>df := [staged 5], error_log := [DataError]\<rparr>"
    using C4_failure_not_rolled_back [where lib = "ta_raising 9" and s = published_client and e = DataError and rsi_obj = "[Num 100]"
        and rsi_col = "[Num 25]" and sma_obj_a = "([Num 100], 20)" and sma_obj_b = "([Num 100], 50)"
        and sma_col_a = "[Num 20]" and sma_col_b = "[Num 50]" and macd_obj = "[Num 100]" and macd_col = "[Num 1]"
        and signal_col = "[Num 2]" and diff_col = "[Num (- 1)]" and vwap_obj = "[Num 100]" and vwap_col = "[Num 99]",
        THEN conjunct2]
    by (simp add: Let_def ta_raising_def published_client_simps one_row_column staged_def
        oversold_row_def flat_row_def)
  have r10: "calculate_indicators (ta_raising 10) published_client =
     published_client\<lparr>df := [staged 6], error_log := [DataError]\<rparr>"
    using C4_failure_not_rolled_back [where lib = "ta_raising 10" and s = published_client and e = DataError and rsi_obj = "[Num 100]"
        and rsi_col = "[Num 25]" and sma_obj_a = "([Num 100], 20)" and sma_obj_b = "([Num 100], 50)"
        and sma_col_a = "[Num 20]" and sma_col_b = "[Num 50]" and macd_obj = "[Num 100]" and macd_col = "[Num 1]"
        and signal_col = "[Num 2]" and diff_col = "[Num (- 1)]" and vwap_obj = "[Num 100]" and vwap_col = "[Num 99]",
        THEN conjunct2]
    by (simp add: Let_def ta_raising_def published_client_simps one_row_column staged_def
        oversold_row_def flat_row_def)
  have r11: "calculate_indicators (ta_raising 11) published_client =
     published_client\<lparr>df := [staged 6], error_log := [DataError]\<rparr>"
    using C4_failure_not_rolled_back [where lib = "ta_raising 11" and s = published_client and e = DataError and rsi_obj = "[Num 100]"
        and rsi_col = "[Num 25]" and sma_obj_a = "([Num 100], 20)" and sma_obj_b = "([Num 100], 50)"
        and sma_col_a = "[Num 20]" and sma_col_b = "[Num 50]" and macd_obj = "[Num 100]" and macd_col = "[Num 1]"
        and signal_col = "[Num 2]" and diff_col = "[Num (- 1)]" and vwap_obj = "[Num 100]" and vwap_col = "[Num 99]",
        THEN conjunct2]
    by (simp add: Let_def ta_raising_def published_client_simps one_row_column staged_def
        oversold_row_def flat_row_def)
  let ?s = "standalone_client oversold_row"
  let ?cl = "map close (ffill (df ?s))"
  let ?c1 = "map (\<lambda>_. Num 25) ?cl"
  let ?f7 = "set_column (\<lambda>x r. r\<lparr>vwap := x\<rparr>) (map (\<lambda>_. Num 99) ?cl)
     (set_column (\<lambda>x r. r\<lparr>macd_diff := x\<rparr>) (map (\<lambda>_. Num (- 1)) ?cl)
     (set_column (\<lambda>x r. r\<lparr>macd_signal := x\<rparr>) (map (\<lambda>_. Num 2) ?cl)
     (set_column (\<lambda>x r. r\<lparr>macd := x\<rparr>) (map (\<lambda>_. Num 1) ?cl)
     (set_column (\<lambda>x r. r\<lparr>sma_50 := x\<rparr>) (map (\<lambda>_. Num (real 50)) ?cl)
     (set_column (\<lambda>x r. r\<lparr>sma_20 := x\<rparr>) (map (\<lambda>_. Num (real 20)) ?cl)
     (set_column (\<lambda>x r. r\<lparr>rsi := x\<rparr>) ?c1 (ffill (df ?s))))))))"
  let ?f8 = "map fillna0_row ?f7"
  have len: "length ?cl = 50" "length (ffill (df ?s)) = 50"
    by (simp_all add: client_fixture_simps length_ffill frame50_simps)
  have m7: "map rsi ?f7 = ?c1"
    using len by (simp add: map_set_column rsi_set_column)
  have "map rsi ?f8 = map zero_cell (map rsi ?f7)"
    by (simp add: fillna0_row_def)
  then have m8: "map rsi ?f8 = replicate 50 (Num 25)"
    unfolding m7 using len(1) by (simp add: zero_cell_def map_replicate_const)
  have ne: "?f8 \<noteq> []"
    using m8 by auto
  from last_map [OF ne, of rsi] have "rsi (last ?f8) = last (map rsi ?f8)"
    by (rule sym)
  then have "rsi (last ?f8) = Num 25"
    unfolding m8 by simp
  then have flag: "long_signal (evaluate_rules ?f8)"
    by (intro rsi_long_sets_flag) (simp add: rsi_long_def)
  have l8: "50 \<le> length ?f8"
    using len by (simp add: length_set_column)
  have g: "generate_trading_signals (?s\<lparr>df := ?f8\<rparr>) = Inl AttributeError"
    using flag l8 by (intro generate_trading_signals_no_queue) (simp_all add: client_fixture_simps)
  have r12: "calculate_indicators (ta_raising 12) ?s =
      ?s\<lparr>df := ?f8, error_log := error_log ?s @ [AttributeError]\<rparr>"
    using g
      C4_failure_not_rolled_back [where lib = "ta_raising 12" and s = "?s"
        and e = AttributeError and rsi_obj = "?cl" and rsi_col = "?c1" and sma_obj_a = "(?cl, 20)"
        and sma_obj_b = "(?cl, 50)" and sma_col_a = "map (\<lambda>_. Num (real 20)) ?cl"
        and sma_col_b = "map (\<lambda>_. Num (real 50)) ?cl" and macd_obj = "?cl"
        and macd_col = "map (\<lambda>_. Num 1) ?cl" and signal_col = "map (\<lambda>_. Num 2) ?cl"
        and diff_col = "map (\<lambda>_. Num (- 1)) ?cl" and vwap_obj = "?cl"
        and vwap_col = "map (\<lambda>_. Num 99) ?cl", THEN conjunct2]
    unfolding Let_def by (simp add: ta_raising_def)
  have e12: "error_log (calculate_indicators (ta_raising 12) ?s) = [AttributeError] \<and>
      map rsi (df (calculate_indicators (ta_raising 12) ?s)) = replicate 50 (Num 25)"
    unfolding r12 using m8 by (simp add: standalone_client_def client_init_def)
  show ?thesis
    using h a r0 r1 r2 r3 r4 r5 r6 r7 r8 r9 r10 r11 e12
    by (simp add: published_client_simps client_fixture_simps)
qed

end
